theory Spec2Isabelle
  imports Complex_Main
begin

section \<open>Values exchanged with the outside world\<close>

text \<open>
  Both scripts only sequence calls into the cloud SDK, the file system and child
  processes. Each such call either throws (with the message of the error object) or
  returns a value.
\<close>

datatype 'a reply = Throws string | Returns 'a

text \<open>
  JavaScript values as far as the scripts inspect them. Numbers produced by
  \<open>JSON.parse\<close> are finite doubles, a subset of the rationals, so \<open>===\<close> on them is
  equality of rationals. Objects are association lists from property names to values.
\<close>

datatype jsval =
    JUndefined
  | JNull
  | JBool bool
  | JNum rat
  | JStr string
  | JArr "jsval list"
  | JObj "(string \<times> jsval) list"

type_synonym item = "(string \<times> jsval) list"

text \<open>
  Property access \<open>v.p\<close> for the property names the scripts read (\<open>statusCode\<close>,
  \<open>body\<close>, \<open>id\<close>): a TypeError on \<open>null\<close> and \<open>undefined\<close>, the stored value on an
  object that has the property, \<open>undefined\<close> everywhere else.
\<close>

fun get_prop :: "jsval \<Rightarrow> string \<Rightarrow> jsval reply" where
  "get_prop JUndefined p = Throws ''TypeError''"
| "get_prop JNull p = Throws ''TypeError''"
| "get_prop (JObj kvs) p = (case map_of kvs p of None \<Rightarrow> Returns JUndefined | Some v \<Rightarrow> Returns v)"
| "get_prop v p = Returns JUndefined"

text \<open>The operator \<open>field in obj\<close> on a record returned by the table.\<close>

definition has_field :: "string \<Rightarrow> item \<Rightarrow> bool" where
  "has_field field obj = (map_of obj field \<noteq> None)"

section \<open>The test runner: \<open>scripts/test-pipeline.js\<close>\<close>

subsection \<open>The world the test runner talks to\<close>

text \<open>
  The result of a table scan carries the optional field \<open>Items\<close>. The table is scanned
  several times during one run (probe, polling, verification), so the answer of the
  emulator is a function of the number of scans already made and of the \<open>Limit\<close>
  parameter. Every other service is called at most once per run.
  \<open>JSON_parse\<close> is the built-in \<open>JSON.parse\<close> applied to an arbitrary value (it
  converts its argument to a string first); it throws a SyntaxError on malformed text.
\<close>

type_synonym scan_output = "item list option"

record world =
  s3_listBuckets :: "unit reply"
  s3_headBucket :: "unit reply"
  dynamodb_scan :: "nat \<Rightarrow> nat \<Rightarrow> scan_output reply"
  fs_existsSync :: bool
  fs_readFileSync :: "string reply"
  s3_putObject :: "unit reply"
  lambda_invoke :: "jsval reply"
  JSON_parse :: "jsval \<Rightarrow> jsval reply"

subsection \<open>Observable events\<close>

datatype colour = reset | green | red | yellow | blue | magenta

datatype mark = CheckMark | CrossMark | InfoMark | WarnMark

text \<open>One constructor per message text of the script, with the interpolated values.\<close>

datatype message =
    MsgCheckingLocalStack
  | MsgLocalStackActive
  | MsgLocalStackDown
  | MsgCheckingBucket string
  | MsgBucketExists string
  | MsgBucketMissing string
  | MsgCheckingTable string
  | MsgTableAccessible string
  | MsgTableNotAccessible string string
  | MsgUploading
  | MsgFixtureNotFound
  | MsgUploaded
  | MsgUploadError string
  | MsgWaiting
  | MsgProcessedFound
  | MsgAttempt nat nat
  | MsgScanError string
  | MsgTimeout
  | MsgVerifying
  | MsgTotalRecords nat
  | MsgExampleRecord
  | MsgAllFieldsPresent
  | MsgMissingFields "string list"
  | MsgNoRecords
  | MsgVerifyError string
  | MsgTestingApi
  | MsgApiWorking
  | MsgCreatedWithId jsval
  | MsgApiStatus jsval
  | MsgApiError string
  | MsgCleaning
  | MsgCleanupHint
  | MsgTitle
  | MsgCritical
  | MsgResourcesUnavailable
  | MsgAllPassed
  | MsgSomeFailed
  | MsgFatal string

datatype printed =
    RuleLine
  | ItemJson item
  | Value jsval
  | ErrorObject string

datatype event =
    Log "mark option" message colour
  | ConsoleLog printed
  | ConsoleError printed
  | ListBuckets
  | HeadBucket string
  | Scan string nat
  | ExistsSync
  | ReadFileSync
  | PutObject string string
  | Invoke string
  | Sleep nat

text \<open>The four kinds of marked log lines.\<close>

abbreviation LogSuccess :: "message \<Rightarrow> event" where
  "LogSuccess m \<equiv> Log (Some CheckMark) m green"

abbreviation LogError :: "message \<Rightarrow> event" where
  "LogError m \<equiv> Log (Some CrossMark) m red"

abbreviation LogInfo :: "message \<Rightarrow> event" where
  "LogInfo m \<equiv> Log (Some InfoMark) m blue"

abbreviation LogWarning :: "message \<Rightarrow> event" where
  "LogWarning m \<equiv> Log (Some WarnMark) m yellow"

record state =
  trace :: "event list"
  scans :: nat

definition emit :: "event \<Rightarrow> state \<Rightarrow> state" where
  "emit e s = s\<lparr>trace := trace s @ [e]\<rparr>"

definition BUCKET_NAME :: string where
  "BUCKET_NAME = ''data-processing-bucket''"

definition TABLE_NAME :: string where
  "TABLE_NAME = ''ProcessedData''"

definition log_line :: "mark option \<Rightarrow> message \<Rightarrow> colour \<Rightarrow> state \<Rightarrow> state" where
  "log_line mk m c s = emit (Log mk m c) s"

definition success :: "message \<Rightarrow> state \<Rightarrow> state" where
  "success m s = log_line (Some CheckMark) m green s"

definition error :: "message \<Rightarrow> state \<Rightarrow> state" where
  "error m s = log_line (Some CrossMark) m red s"

definition info :: "message \<Rightarrow> state \<Rightarrow> state" where
  "info m s = log_line (Some InfoMark) m blue s"

definition warning :: "message \<Rightarrow> state \<Rightarrow> state" where
  "warning m s = log_line (Some WarnMark) m yellow s"

definition sleep :: "nat \<Rightarrow> state \<Rightarrow> state" where
  "sleep ms s = emit (Sleep ms) s"

text \<open>\<open>dynamodb.scan({TableName: TABLE_NAME, Limit: limit_n}).promise()\<close>\<close>

definition scan_call :: "world \<Rightarrow> nat \<Rightarrow> state \<Rightarrow> scan_output reply \<times> state" where
  "scan_call w limit_n s =
     (dynamodb_scan w (scans s) limit_n,
      s\<lparr>trace := trace s @ [Scan TABLE_NAME limit_n], scans := Suc (scans s)\<rparr>)"

subsection \<open>Availability checks\<close>

definition checkLocalStack :: "world \<Rightarrow> state \<Rightarrow> bool \<times> state" where
  "checkLocalStack w s =
     (let s1 = emit ListBuckets (info MsgCheckingLocalStack s) in
      case s3_listBuckets w of
        Returns _ \<Rightarrow> (True, success MsgLocalStackActive s1)
      | Throws err \<Rightarrow> (False, error MsgLocalStackDown s1))"

definition checkBucket :: "world \<Rightarrow> state \<Rightarrow> bool \<times> state" where
  "checkBucket w s =
     (let s1 = emit (HeadBucket BUCKET_NAME) (info (MsgCheckingBucket BUCKET_NAME) s) in
      case s3_headBucket w of
        Returns _ \<Rightarrow> (True, success (MsgBucketExists BUCKET_NAME) s1)
      | Throws err \<Rightarrow> (False, error (MsgBucketMissing BUCKET_NAME) s1))"

definition checkTable :: "world \<Rightarrow> state \<Rightarrow> bool \<times> state" where
  "checkTable w s =
     (case scan_call w 1 (info (MsgCheckingTable TABLE_NAME) s) of
        (Returns _, s1) \<Rightarrow> (True, success (MsgTableAccessible TABLE_NAME) s1)
      | (Throws err, s1) \<Rightarrow> (False, error (MsgTableNotAccessible TABLE_NAME err) s1))"

subsection \<open>Upload of the fixture\<close>

text \<open>
  \<open>fs.readFileSync\<close> stands outside the \<open>try\<close> block: when it throws, the promise of
  \<open>uploadTestFile\<close> is rejected, which is the \<open>Throws\<close> result here.
\<close>

definition uploadTestFile :: "world \<Rightarrow> state \<Rightarrow> bool reply \<times> state" where
  "uploadTestFile w s =
     (let s1 = emit ExistsSync (info MsgUploading s) in
      if \<not> fs_existsSync w then (Returns False, error MsgFixtureNotFound s1)
      else
        let s2 = emit ReadFileSync s1 in
        case fs_readFileSync w of
          Throws err \<Rightarrow> (Throws err, s2)
        | Returns fileContent \<Rightarrow>
            (let s3 = emit (PutObject BUCKET_NAME ''input/produtos.csv'') s2 in
             case s3_putObject w of
               Returns _ \<Rightarrow> (Returns True, success MsgUploaded s3)
             | Throws err \<Rightarrow> (Returns False, error (MsgUploadError err) s3)))"

subsection \<open>Polling\<close>

text \<open>\<open>result.Items && result.Items.length > 0\<close>\<close>

definition has_items :: "scan_output \<Rightarrow> bool" where
  "has_items result = (case result of None \<Rightarrow> False | Some items \<Rightarrow> length items > 0)"

text \<open>The \<open>for\<close> loop of \<open>waitForProcessing\<close>, entered with loop variable \<open>i\<close>.\<close>

function waitForProcessing_loop ::
  "world \<Rightarrow> nat \<Rightarrow> nat \<Rightarrow> nat \<Rightarrow> state \<Rightarrow> bool \<times> state" where
  "waitForProcessing_loop w maxAttempts interval i s =
     (if i < maxAttempts then
        (let rs = scan_call w 1 s in
         case fst rs of
           Returns result \<Rightarrow>
             if has_items result then (True, success MsgProcessedFound (snd rs))
             else waitForProcessing_loop w maxAttempts interval (Suc i)
                    (sleep interval (warning (MsgAttempt (i + 1) maxAttempts) (snd rs)))
         | Throws err \<Rightarrow>
             waitForProcessing_loop w maxAttempts interval (Suc i)
               (warning (MsgScanError err) (snd rs)))
      else (False, error MsgTimeout s))"
  by pat_completeness auto
termination
  by (relation "measure (\<lambda>(w, maxAttempts, interval, i, s). maxAttempts - i)") auto

definition waitForProcessing :: "world \<Rightarrow> nat \<Rightarrow> nat \<Rightarrow> state \<Rightarrow> bool \<times> state" where
  "waitForProcessing w maxAttempts interval s =
     waitForProcessing_loop w maxAttempts interval 0 (info MsgWaiting s)"

subsection \<open>Verification of the stored records\<close>

definition requiredFields :: "string list" where
  "requiredFields = [''id'', ''timestamp'', ''nome'', ''preco'', ''source_file'']"

definition verifyData :: "world \<Rightarrow> state \<Rightarrow> bool \<times> state" where
  "verifyData w s =
     (case scan_call w 100 (info MsgVerifying s) of
        (Throws err, s1) \<Rightarrow> (False, error (MsgVerifyError err) s1)
      | (Returns result, s1) \<Rightarrow>
          (let items = (case result of None \<Rightarrow> [] | Some xs \<Rightarrow> xs);
               s2 = success (MsgTotalRecords (length items)) s1
           in case items of
                firstItem # rest \<Rightarrow>
                  (let s3 = emit (ConsoleLog (ItemJson firstItem)) (info MsgExampleRecord s2);
                       missingFields = filter (\<lambda>field. \<not> has_field field firstItem) requiredFields
                   in if length missingFields = 0
                      then (True, success MsgAllFieldsPresent s3)
                      else (True, warning (MsgMissingFields missingFields) s3))
              | [] \<Rightarrow> (False, warning MsgNoRecords s2)))"

subsection \<open>The API test\<close>

text \<open>
  Everything after the first message lies inside one \<open>try\<close> block, so each throwing
  operation (\<open>lambda.invoke\<close>, both calls of \<open>JSON.parse\<close>, a property read on
  \<open>null\<close>) ends in the \<open>catch\<close> branch, which is \<open>api_catch\<close>.
\<close>

definition api_catch :: "string \<Rightarrow> state \<Rightarrow> bool \<times> state" where
  "api_catch err s = (False, error (MsgApiError err) s)"

definition testApi :: "world \<Rightarrow> state \<Rightarrow> bool \<times> state" where
  "testApi w s =
     (let s1 = emit (Invoke ''CreateRecordFunction'') (info MsgTestingApi s) in
      case lambda_invoke w of
        Throws err \<Rightarrow> api_catch err s1
      | Returns payload \<Rightarrow>
         (case JSON_parse w payload of
            Throws err \<Rightarrow> api_catch err s1
          | Returns response \<Rightarrow>
             (case get_prop response ''statusCode'' of
                Throws err \<Rightarrow> api_catch err s1
              | Returns statusCode \<Rightarrow>
                  if statusCode = JNum 201 then
                    (let s2 = success MsgApiWorking s1 in
                     case get_prop response ''body'' of
                       Throws err \<Rightarrow> api_catch err s2
                     | Returns bodyText \<Rightarrow>
                        (case JSON_parse w bodyText of
                           Throws err \<Rightarrow> api_catch err s2
                         | Returns body \<Rightarrow>
                            (case get_prop body ''id'' of
                               Throws err \<Rightarrow> api_catch err s2
                             | Returns ident \<Rightarrow> (True, info (MsgCreatedWithId ident) s2))))
                  else
                    (let s2 = error (MsgApiStatus statusCode) s1 in
                     case get_prop response ''body'' of
                       Throws err \<Rightarrow> api_catch err s2
                     | Returns bodyText \<Rightarrow> (False, emit (ConsoleLog (Value bodyText)) s2)))))"

subsection \<open>Cleanup and the main sequence\<close>

definition cleanup :: "state \<Rightarrow> state" where
  "cleanup s = warning MsgCleanupHint (info MsgCleaning s)"

text \<open>
  A run ends with the events it produced and the exit code of the process:
  \<open>process.exit(1)\<close> ends it at once, the handler attached to the promise of \<open>main\<close>
  ends it with code 1 after a rejection, and a run that reaches the end of \<open>main\<close> leaves
  with code 0.
\<close>

record outcome =
  out_trace :: "event list"
  exit_code :: nat

definition process_exit :: "nat \<Rightarrow> state \<Rightarrow> outcome" where
  "process_exit code s = \<lparr>out_trace = trace s, exit_code = code\<rparr>"

definition main_catch :: "string \<Rightarrow> state \<Rightarrow> outcome" where
  "main_catch err s =
     process_exit 1 (emit (ConsoleError (ErrorObject err)) (error (MsgFatal err) s))"

definition initial_state :: state where
  "initial_state = \<lparr>trace = [], scans = 0\<rparr>"

definition main :: "world \<Rightarrow> outcome" where
  "main w =
     (let s = emit (ConsoleLog RuleLine) initial_state;
          s = log_line None MsgTitle magenta s;
          s = emit (ConsoleLog RuleLine) s;
          allPassed = True;
          (localStackOk, s) = checkLocalStack w s
      in if \<not> localStackOk then process_exit 1 (error MsgCritical s)
      else
        let (bucketOk, s) = checkBucket w s;
            (resourcesOk, s) = (if \<not> bucketOk then (False, s) else checkTable w s)
        in if \<not> resourcesOk then process_exit 1 (error MsgResourcesUnavailable s)
        else
          case uploadTestFile w s of
            (Throws err, s) \<Rightarrow> main_catch err s
          | (Returns uploaded, s) \<Rightarrow>
             (let allPassed = (if \<not> uploaded then False else allPassed);
                  s = sleep 3000 s;
                  (processed, s) = waitForProcessing w 10 2000 s;
                  allPassed = (if \<not> processed then False else allPassed);
                  (verified, s) = verifyData w s;
                  allPassed = (if \<not> verified then False else allPassed);
                  s = sleep 2000 s;
                  (apiOk, s) = testApi w s;
                  allPassed = (if \<not> apiOk then False else allPassed);
                  s = cleanup s;
                  s = emit (ConsoleLog RuleLine) s;
                  s = (if allPassed then log_line None MsgAllPassed green s
                       else log_line None MsgSomeFailed yellow s);
                  s = emit (ConsoleLog RuleLine) s
              in process_exit 0 s))"

section \<open>The setup script: \<open>scripts/setup.js\<close>\<close>

text \<open>
  The setup script runs child processes synchronously. A child process takes some time
  (in milliseconds) and either returns or makes \<open>execSync\<close> throw. The script also
  registers a timer; a pending timer keeps the process alive after the script has run
  to its end, so the state carries a clock and the deadlines of the timers.
\<close>

datatype stdio = inherit | pipe

record setup_world =
  existsSync :: "string \<Rightarrow> bool"
  execSync :: "string \<Rightarrow> nat \<times> unit reply"

datatype setup_message =
    SetupTitle
  | SetupRule
  | PackageJsonNotFound
  | Step1Installing
  | InstallFailed
  | Step2Docker
  | DockerNotRunning
  | Step3LocalStack
  | LocalStackStartFailed
  | WaitingForLocalStack
  | Step4Deploy
  | DeployFailed
  | Step5Test
  | SetupDone
  | NextStepsHeader
  | NextStep nat
  | Executing string
  | CommandSucceeded
  | CommandError string

datatype setup_event =
    Out setup_message
  | Err setup_message
  | CheckedFile string
  | Ran string stdio
  | Uncaught string

record setup_state =
  events :: "setup_event list"
  clock :: nat
  timers :: "nat list"

definition console_log :: "setup_message \<Rightarrow> setup_state \<Rightarrow> setup_state" where
  "console_log m s = s\<lparr>events := events s @ [Out m]\<rparr>"

definition console_error :: "setup_message \<Rightarrow> setup_state \<Rightarrow> setup_state" where
  "console_error m s = s\<lparr>events := events s @ [Err m]\<rparr>"

text \<open>\<open>execSync(command, {stdio: mode})\<close>: the child runs, the clock advances.\<close>

definition run_child :: "setup_world \<Rightarrow> string \<Rightarrow> stdio \<Rightarrow> setup_state \<Rightarrow> unit reply \<times> setup_state" where
  "run_child w command mode s =
     (snd (execSync w command),
      s\<lparr>events := events s @ [Ran command mode], clock := clock s + fst (execSync w command)\<rparr>)"

text \<open>
  \<open>execute(command, options)\<close>: the options are spread over \<open>{stdio: 'inherit'}\<close>, so
  an option \<open>stdio\<close> replaces the default.
\<close>

definition execute :: "setup_world \<Rightarrow> string \<Rightarrow> stdio option \<Rightarrow> setup_state \<Rightarrow> bool \<times> setup_state" where
  "execute w command options s =
     (let mode = (case options of None \<Rightarrow> inherit | Some m \<Rightarrow> m) in
      case run_child w command mode (console_log (Executing command) s) of
        (Returns _, s1) \<Rightarrow> (True, console_log CommandSucceeded s1)
      | (Throws err, s1) \<Rightarrow> (False, console_error (CommandError err) s1))"

definition checkFile :: "setup_world \<Rightarrow> string \<Rightarrow> setup_state \<Rightarrow> bool \<times> setup_state" where
  "checkFile w filePath s = (existsSync w filePath, s\<lparr>events := events s @ [CheckedFile filePath]\<rparr>)"

text \<open>\<open>setTimeout(callback, delay)\<close> with the empty callback: only the deadline is kept.\<close>

definition setTimeout_noop :: "nat \<Rightarrow> setup_state \<Rightarrow> setup_state" where
  "setTimeout_noop delay s = s\<lparr>timers := (clock s + delay) # timers s\<rparr>"

record setup_outcome =
  setup_events :: "setup_event list"
  setup_exit_code :: nat
  setup_exit_time :: nat

text \<open>\<open>process.exit(code)\<close> leaves at once, whatever timers are pending.\<close>

definition setup_exit :: "nat \<Rightarrow> setup_state \<Rightarrow> setup_outcome" where
  "setup_exit code s = \<lparr>setup_events = events s, setup_exit_code = code, setup_exit_time = clock s\<rparr>"

text \<open>An exception nobody catches is printed and ends the process with code 1.\<close>

definition setup_uncaught :: "string \<Rightarrow> setup_state \<Rightarrow> setup_outcome" where
  "setup_uncaught err s =
     \<lparr>setup_events = events s @ [Uncaught err], setup_exit_code = 1, setup_exit_time = clock s\<rparr>"

text \<open>
  The script has run to its end: the process leaves with code 0 once no timer is
  pending, that is at the latest deadline if one lies in the future. The callbacks that
  run then are empty.
\<close>

definition setup_finish :: "setup_state \<Rightarrow> setup_outcome" where
  "setup_finish s =
     \<lparr>setup_events = events s, setup_exit_code = 0, setup_exit_time = fold max (timers s) (clock s)\<rparr>"

definition setup_start :: setup_state where
  "setup_start = \<lparr>events = [], clock = 0, timers = []\<rparr>"

text \<open>Steps 6 and 7 and the closing messages, shared by both variants of the wait step.\<close>

definition deploy_and_test :: "setup_world \<Rightarrow> setup_state \<Rightarrow> setup_outcome" where
  "deploy_and_test w s =
     (let s = console_log Step4Deploy s;
          (deployed, s) = execute w ''serverless deploy --stage local --verbose'' None s
      in if \<not> deployed then setup_exit 1 (console_error DeployFailed s)
      else
        let s = console_log Step5Test s;
            (present, s) = checkFile w ''scripts/test-pipeline.js'' s;
            s = (if present then snd (execute w ''node scripts/test-pipeline.js'' None s) else s);
            s = console_log SetupRule s;
            s = console_log SetupDone s;
            s = console_log SetupRule s;
            s = console_log NextStepsHeader s;
            s = console_log (NextStep 1) s;
            s = console_log (NextStep 2) s;
            s = console_log (NextStep 3) s;
            s = console_log (NextStep 4) s
        in setup_finish s)"

text \<open>Steps 1 to 4; \<open>wait\<close> is step 5 followed by the rest of the script.\<close>

definition setup_with :: "(setup_world \<Rightarrow> setup_state \<Rightarrow> setup_outcome) \<Rightarrow> setup_world \<Rightarrow> setup_outcome" where
  "setup_with wait w =
     (let s = console_log SetupTitle setup_start;
          s = console_log SetupRule s;
          (inRoot, s) = checkFile w ''package.json'' s
      in if \<not> inRoot then setup_exit 1 (console_error PackageJsonNotFound s)
      else
        let s = console_log Step1Installing s;
            (installed, s) = execute w ''npm install'' None s
        in if \<not> installed then setup_exit 1 (console_error InstallFailed s)
        else
          let s = console_log Step2Docker s;
              (dockerUp, s) = execute w ''docker ps'' (Some pipe) s
          in if \<not> dockerUp then setup_exit 1 (console_error DockerNotRunning s)
          else
            let s = console_log Step3LocalStack s;
                (started, s) = execute w ''docker-compose up -d'' None s
            in if \<not> started then setup_exit 1 (console_error LocalStackStartFailed s)
            else wait w s)"

text \<open>
  Step 5 as the script has it: the message, the timer with the empty callback, then the
  blocking \<open>sleep 30\<close>, whose failure nobody catches.
\<close>

definition wait_step :: "setup_world \<Rightarrow> setup_state \<Rightarrow> setup_outcome" where
  "wait_step w s =
     (let s = console_log WaitingForLocalStack s;
          s = setTimeout_noop 30000 s
      in case run_child w ''sleep 30'' inherit s of
           (Throws err, s) \<Rightarrow> setup_uncaught err s
         | (Returns _, s) \<Rightarrow> deploy_and_test w s)"

definition setup_script :: "setup_world \<Rightarrow> setup_outcome" where
  "setup_script w = setup_with wait_step w"

text \<open>
  The variant the specification asks a rewrite to use: a single explicit blocking wait
  of 30 seconds, without the timer.
\<close>

definition wait_step_single :: "setup_world \<Rightarrow> setup_state \<Rightarrow> setup_outcome" where
  "wait_step_single w s =
     (let s = console_log WaitingForLocalStack s
      in case run_child w ''sleep 30'' inherit s of
           (Throws err, s) \<Rightarrow> setup_uncaught err s
         | (Returns _, s) \<Rightarrow> deploy_and_test w s)"

definition setup_single_wait :: "setup_world \<Rightarrow> setup_outcome" where
  "setup_single_wait w = setup_with wait_step_single w"

section \<open>Vocabulary of the properties\<close>

text \<open>A call that returned rather than threw.\<close>

definition returned :: "'a reply \<Rightarrow> bool" where
  "returned r = (case r of Returns v \<Rightarrow> True | Throws err \<Rightarrow> False)"

text \<open>
  Polling that starts after \<open>b\<close> scans sends scan number \<open>b + j\<close> in its attempt
  \<open>j\<close> (counted from 0). The attempt has \<open>found\<close> data when that scan returns a
  non-empty result set; it has seen an empty result when the scan returns without one.
\<close>

definition found :: "world \<Rightarrow> nat \<Rightarrow> nat \<Rightarrow> bool" where
  "found w b j =
     (case dynamodb_scan w (b + j) 1 of Returns result \<Rightarrow> has_items result | Throws err \<Rightarrow> False)"

definition saw_empty :: "world \<Rightarrow> nat \<Rightarrow> nat \<Rightarrow> bool" where
  "saw_empty w b j =
     (case dynamodb_scan w (b + j) 1 of Returns result \<Rightarrow> \<not> has_items result | Throws err \<Rightarrow> False)"

text \<open>What an attempt without data leaves in the trace.\<close>

definition attempt_events :: "world \<Rightarrow> nat \<Rightarrow> nat \<Rightarrow> nat \<Rightarrow> nat \<Rightarrow> event list" where
  "attempt_events w maxAttempts interval b j =
     (case dynamodb_scan w (b + j) 1 of
        Throws err \<Rightarrow> [Scan TABLE_NAME 1, LogWarning (MsgScanError err)]
      | Returns result \<Rightarrow>
          [Scan TABLE_NAME 1, LogWarning (MsgAttempt (j + 1) maxAttempts), Sleep interval])"

text \<open>The attempts from \<open>i\<close> on that come before the first one that finds data.\<close>

definition failed_attempts :: "world \<Rightarrow> nat \<Rightarrow> nat \<Rightarrow> nat \<Rightarrow> nat list" where
  "failed_attempts w maxAttempts b i = takeWhile (\<lambda>j. \<not> found w b j) [i..<maxAttempts]"

text \<open>
  The stations of a run of \<open>main\<close> that gets past the availability checks: the state
  after the title, after each check and after each step, and the result of each step.
\<close>

definition after_title :: state where
  "after_title =
     emit (ConsoleLog RuleLine) (log_line None MsgTitle magenta (emit (ConsoleLog RuleLine) initial_state))"

definition after_checks :: "world \<Rightarrow> state" where
  "after_checks w = snd (checkTable w (snd (checkBucket w (snd (checkLocalStack w after_title)))))"

definition uploaded :: "world \<Rightarrow> bool reply" where
  "uploaded w = fst (uploadTestFile w (after_checks w))"

definition after_upload :: "world \<Rightarrow> state" where
  "after_upload w = snd (uploadTestFile w (after_checks w))"

definition processed :: "world \<Rightarrow> bool" where
  "processed w = fst (waitForProcessing w 10 2000 (sleep 3000 (after_upload w)))"

definition after_polling :: "world \<Rightarrow> state" where
  "after_polling w = snd (waitForProcessing w 10 2000 (sleep 3000 (after_upload w)))"

definition verified :: "world \<Rightarrow> bool" where
  "verified w = fst (verifyData w (after_polling w))"

definition after_verification :: "world \<Rightarrow> state" where
  "after_verification w = snd (verifyData w (after_polling w))"

definition api_passed :: "world \<Rightarrow> bool" where
  "api_passed w = fst (testApi w (sleep 2000 (after_verification w)))"

definition after_api :: "world \<Rightarrow> state" where
  "after_api w = snd (testApi w (sleep 2000 (after_verification w)))"

text \<open>The three availability checks of \<open>main\<close> all succeed.\<close>

definition checks_pass :: "world \<Rightarrow> bool" where
  "checks_pass w =
     (returned (s3_listBuckets w) \<and> returned (s3_headBucket w) \<and> returned (dynamodb_scan w 0 1))"

section \<open>Concrete worlds\<close>

definition example_item :: item where
  "example_item =
     [(''id'', JStr ''p-1''), (''timestamp'', JStr ''2024-01-01T00:00:00Z''),
      (''nome'', JStr ''Teclado''), (''preco'', JNum 150), (''source_file'', JStr ''input/produtos.csv'')]"

text \<open>
  \<open>JSON.parse\<close> on the arguments the examples pass to it: the payload of a created
  record and the body inside it, a payload without body, a payload whose body is the
  empty object and a payload of a failed request. Of the arguments it rejects, the
  examples pass only \<open>undefined\<close>, on which \<open>JSON.parse\<close> throws a SyntaxError.
\<close>

definition backslash :: string where
  "backslash = [CHR 0x5C]"

definition created_body :: string where
  \<open>created_body = ''{"id":"r-7"}''\<close>

definition created_payload :: string where
  \<open>created_payload =
     ''{"statusCode":201,"body":"{'' @ backslash @ ''"id'' @ backslash @ ''":''
       @ backslash @ ''"r-7'' @ backslash @ ''"}"}''\<close>

definition example_parse :: "jsval \<Rightarrow> jsval reply" where
  \<open>example_parse v =
     (if v = JStr created_payload
        then Returns (JObj [(''statusCode'', JNum 201), (''body'', JStr created_body)])
      else if v = JStr created_body then Returns (JObj [(''id'', JStr ''r-7'')])
      else if v = JStr ''{"statusCode":201}'' then Returns (JObj [(''statusCode'', JNum 201)])
      else if v = JStr ''{"statusCode":201,"body":"{}"}''
        then Returns (JObj [(''statusCode'', JNum 201), (''body'', JStr ''{}'')])
      else if v = JStr ''{}'' then Returns (JObj [])
      else if v = JStr ''{"statusCode":500,"body":"boom"}''
        then Returns (JObj [(''statusCode'', JNum 500), (''body'', JStr ''boom'')])
      else Throws ''SyntaxError'')\<close>

text \<open>
  A healthy emulator: the probe scan finds the table empty, the records appear at the
  third polling attempt (after one empty result and one failed scan).
\<close>

definition healthy :: world where
  "healthy =
     \<lparr>s3_listBuckets = Returns (),
      s3_headBucket = Returns (),
      dynamodb_scan = (\<lambda>k n. if k \<le> 1 then Returns (Some [])
                              else if k = 2 then Throws ''ResourceNotFound''
                              else Returns (Some [example_item])),
      fs_existsSync = True,
      fs_readFileSync = Returns ''nome,preco'',
      s3_putObject = Returns (),
      lambda_invoke = Returns (JStr created_payload),
      JSON_parse = example_parse\<rparr>"

text \<open>The table stays empty and every second scan fails.\<close>

definition never_processed :: world where
  "never_processed =
     healthy\<lparr>dynamodb_scan := (\<lambda>k n. if even k then Returns (Some []) else Throws ''Timeout'')\<rparr>"

text \<open>Every scan of the table fails.\<close>

definition table_down :: world where
  "table_down = healthy\<lparr>dynamodb_scan := (\<lambda>k n. Throws ''ResourceNotFound'')\<rparr>"

text \<open>The emulator does not answer at all.\<close>

definition emulator_down :: world where
  "emulator_down = healthy\<lparr>s3_listBuckets := Throws ''ECONNREFUSED''\<rparr>"

text \<open>The stack has not been deployed: the bucket is missing.\<close>

definition bucket_missing :: world where
  "bucket_missing = healthy\<lparr>s3_headBucket := Throws ''NotFound''\<rparr>"

text \<open>The fixture file is not there.\<close>

definition fixture_missing :: world where
  "fixture_missing = healthy\<lparr>fs_existsSync := False\<rparr>"

text \<open>The fixture exists but cannot be read (it is a directory, say).\<close>

definition fixture_unreadable :: world where
  "fixture_unreadable = healthy\<lparr>fs_readFileSync := Throws ''EISDIR''\<rparr>"

text \<open>The bucket refuses the upload.\<close>

definition upload_rejected :: world where
  "upload_rejected = healthy\<lparr>s3_putObject := Throws ''AccessDenied''\<rparr>"

text \<open>The records in the table carry an identifier and a name only.\<close>

definition partial_item :: item where
  "partial_item = [(''id'', JStr ''p-2''), (''nome'', JStr ''Mouse'')]"

definition partial_records :: world where
  "partial_records = healthy\<lparr>dynamodb_scan := (\<lambda>k n. Returns (Some [partial_item, example_item]))\<rparr>"

text \<open>Only the second record in the table lacks fields; the first is complete.\<close>

definition later_record_partial :: world where
  "later_record_partial = healthy\<lparr>dynamodb_scan := (\<lambda>k n. Returns (Some [example_item, partial_item]))\<rparr>"

text \<open>The function answers with status 201 and no body.\<close>

definition created_without_body :: world where
  \<open>created_without_body = healthy\<lparr>lambda_invoke := Returns (JStr ''{"statusCode":201}'')\<rparr>\<close>

text \<open>The function answers with status 201 and a body without identifier.\<close>

definition created_without_id :: world where
  \<open>created_without_id = healthy\<lparr>lambda_invoke := Returns (JStr ''{"statusCode":201,"body":"{}"}'')\<rparr>\<close>

text \<open>The function answers with status 500.\<close>

definition request_failed :: world where
  \<open>request_failed = healthy\<lparr>lambda_invoke := Returns (JStr ''{"statusCode":500,"body":"boom"}'')\<rparr>\<close>

text \<open>
  Worlds of the setup script. In the first every file is in place and every command
  succeeds; \<open>sleep 30\<close> takes its 30 seconds. In the second the deployment fails, in
  the third only the basic test fails, in the fourth the test script is not there.
\<close>

definition setup_ready :: setup_world where
  "setup_ready =
     \<lparr>existsSync = (\<lambda>filePath. True),
      execSync = (\<lambda>command. if command = ''sleep 30'' then (30000, Returns ())
                           else if command = ''npm install'' then (12000, Returns ())
                           else (1500, Returns ()))\<rparr>"

definition deploy_fails :: setup_world where
  "deploy_fails =
     setup_ready\<lparr>execSync := (\<lambda>command.
        if command = ''serverless deploy --stage local --verbose'' then (4000, Throws ''Command failed'')
        else execSync setup_ready command)\<rparr>"

definition test_fails :: setup_world where
  "test_fails =
     setup_ready\<lparr>execSync := (\<lambda>command.
        if command = ''node scripts/test-pipeline.js'' then (700, Throws ''Command failed'')
        else execSync setup_ready command)\<rparr>"

definition test_absent :: setup_world where
  "test_absent = setup_ready\<lparr>existsSync := (\<lambda>filePath. filePath = ''package.json'')\<rparr>"

text \<open>A world in which the command \<open>sleep 30\<close> returns after 10 milliseconds.\<close>

definition sleep_cut_short :: setup_world where
  "sleep_cut_short =
     setup_ready\<lparr>execSync := (\<lambda>command.
        if command = ''sleep 30'' then (10, Returns ()) else execSync setup_ready command)\<rparr>"

declare waitForProcessing_loop.simps [simp del]

lemmas step_defs =
  emit_def log_line_def success_def error_def info_def warning_def sleep_def scan_call_def

section \<open>The polling loop in closed form\<close>

lemma failed_attempts_done: "maxAttempts \<le> i \<Longrightarrow> failed_attempts w maxAttempts b i = []"
  by (simp add: failed_attempts_def)

lemma failed_attempts_found:
  "i < maxAttempts \<Longrightarrow> found w b i \<Longrightarrow> failed_attempts w maxAttempts b i = []"
  by (simp add: failed_attempts_def upt_conv_Cons)

lemma failed_attempts_next:
  "i < maxAttempts \<Longrightarrow> \<not> found w b i \<Longrightarrow>
   failed_attempts w maxAttempts b i = i # failed_attempts w maxAttempts b (Suc i)"
  by (simp add: failed_attempts_def upt_conv_Cons)

lemma failed_attempts_length: "i \<le> maxAttempts \<Longrightarrow> i + length (failed_attempts w maxAttempts b i) \<le> maxAttempts"
  unfolding failed_attempts_def
  using length_takeWhile_le [of "\<lambda>j. \<not> found w b j" "[i..<maxAttempts]"] by simp

lemma loop_closed:
  "i \<le> maxAttempts \<Longrightarrow> scans s = b + i \<Longrightarrow>
   waitForProcessing_loop w maxAttempts interval i s =
     (let js = failed_attempts w maxAttempts b i in
      if i + length js < maxAttempts
      then (True, \<lparr>trace = trace s @ concat (map (attempt_events w maxAttempts interval b) js)
                              @ [Scan TABLE_NAME 1, LogSuccess MsgProcessedFound],
                     scans = b + i + length js + 1\<rparr>)
      else (False, \<lparr>trace = trace s @ concat (map (attempt_events w maxAttempts interval b) js)
                              @ [LogError MsgTimeout],
                      scans = b + maxAttempts\<rparr>))"
proof (induction w maxAttempts interval i s rule: waitForProcessing_loop.induct)
  case (1 w maxAttempts interval i s)
  note IH2 = 1(1) and IH1 = 1(2) and le = 1(3) and sc = 1(4)
  show ?case
  proof (cases "i < maxAttempts")
    case False
    with le have "i = maxAttempts" by simp
    then show ?thesis using sc
      by (subst waitForProcessing_loop.simps) (simp add: step_defs failed_attempts_done)
  next
    case True
    show ?thesis
    proof (cases "dynamodb_scan w (scans s) 1")
      case (Throws err)
      then have nf: "\<not> found w b i" using sc by (simp add: found_def)
      have ev: "attempt_events w maxAttempts interval b i = [Scan TABLE_NAME 1, LogWarning (MsgScanError err)]"
        using Throws sc by (simp add: attempt_events_def)
      let ?s' = "warning (MsgScanError err) (snd (scan_call w 1 s))"
      have fst: "fst (scan_call w 1 s) = Throws err" using Throws by (simp add: scan_call_def)
      have sc': "scans ?s' = b + Suc i" using sc by (simp add: step_defs)
      have tr': "trace ?s' = trace s @ [Scan TABLE_NAME 1, LogWarning (MsgScanError err)]"
        by (simp add: step_defs)
      have step: "waitForProcessing_loop w maxAttempts interval i s =
                  waitForProcessing_loop w maxAttempts interval (Suc i) ?s'"
        by (subst waitForProcessing_loop.simps) (use fst in \<open>simp add: True Let_def\<close>)
      from True have le': "Suc i \<le> maxAttempts" by simp
      show ?thesis
        unfolding step IH2 [OF True refl fst le' sc']
        using ev tr' by (simp add: failed_attempts_next [OF True nf] Let_def)
    next
      case (Returns result)
      have fst: "fst (scan_call w 1 s) = Returns result" using Returns by (simp add: scan_call_def)
      show ?thesis
      proof (cases "has_items result")
        case True': True
        then have f: "found w b i" using Returns sc by (simp add: found_def)
        show ?thesis
          by (subst waitForProcessing_loop.simps)
             (use fst sc in \<open>simp add: True True' Let_def failed_attempts_found [OF True f] step_defs\<close>)
      next
        case False
        then have nf: "\<not> found w b i" using Returns sc by (simp add: found_def)
        have ev: "attempt_events w maxAttempts interval b i =
                  [Scan TABLE_NAME 1, LogWarning (MsgAttempt (i + 1) maxAttempts), Sleep interval]"
          using Returns sc by (simp add: attempt_events_def)
        let ?s' = "sleep interval (warning (MsgAttempt (i + 1) maxAttempts) (snd (scan_call w 1 s)))"
        have sc': "scans ?s' = b + Suc i" using sc by (simp add: step_defs)
        have tr': "trace ?s' = trace s @ [Scan TABLE_NAME 1, LogWarning (MsgAttempt (i + 1) maxAttempts), Sleep interval]"
          by (simp add: step_defs)
        have step: "waitForProcessing_loop w maxAttempts interval i s =
                    waitForProcessing_loop w maxAttempts interval (Suc i) ?s'"
          by (subst waitForProcessing_loop.simps) (use fst in \<open>simp add: True False Let_def\<close>)
        from True have le': "Suc i \<le> maxAttempts" by simp
        show ?thesis
          unfolding step IH1 [OF True refl fst False le' sc']
          using ev tr' by (simp add: failed_attempts_next [OF True nf] Let_def)
      qed
    qed
  qed
qed

lemma waitForProcessing_closed:
  "waitForProcessing w maxAttempts interval s =
     (let b = scans s; js = failed_attempts w maxAttempts b 0 in
      if length js < maxAttempts
      then (True, \<lparr>trace = trace s @ LogInfo MsgWaiting
                              # concat (map (attempt_events w maxAttempts interval b) js)
                              @ [Scan TABLE_NAME 1, LogSuccess MsgProcessedFound],
                     scans = b + length js + 1\<rparr>)
      else (False, \<lparr>trace = trace s @ LogInfo MsgWaiting
                              # concat (map (attempt_events w maxAttempts interval b) js)
                              @ [LogError MsgTimeout],
                      scans = b + maxAttempts\<rparr>))"
proof -
  have sc: "scans (info MsgWaiting s) = scans s + 0" by (simp add: step_defs)
  have tr: "trace (info MsgWaiting s) = trace s @ [LogInfo MsgWaiting]" by (simp add: step_defs)
  show ?thesis
    unfolding waitForProcessing_def loop_closed [OF le0 sc] tr
    by (simp add: Let_def)
qed

lemma failed_attempts_upt:
  "failed_attempts w maxAttempts b 0 = [0..<length (failed_attempts w maxAttempts b 0)]"
proof -
  let ?js = "failed_attempts w maxAttempts b 0"
  have le: "length ?js \<le> maxAttempts"
    using failed_attempts_length [of 0 maxAttempts w b] by simp
  have "?js = take (length ?js) [0..<maxAttempts]"
    unfolding failed_attempts_def by (rule takeWhile_eq_take)
  also have "\<dots> = [0..<length ?js]" using le by (simp add: take_upt)
  finally show ?thesis .
qed

lemma failed_attempts_not_found:
  "j \<in> set (failed_attempts w maxAttempts b i) \<Longrightarrow> \<not> found w b j"
  unfolding failed_attempts_def by (auto dest: set_takeWhileD)

lemma failed_attempts_stop:
  assumes "length (failed_attempts w maxAttempts b 0) < maxAttempts"
  shows "found w b (length (failed_attempts w maxAttempts b 0))"
proof -
  let ?P = "\<lambda>j. \<not> found w b j"
  have "length (takeWhile ?P [0..<maxAttempts]) < length [0..<maxAttempts]"
    using assms by (simp add: failed_attempts_def)
  then have "\<not> ?P ([0..<maxAttempts] ! length (takeWhile ?P [0..<maxAttempts]))"
    by (rule nth_length_takeWhile)
  then show ?thesis using assms by (simp add: failed_attempts_def)
qed

lemma attempt_events_sleep1:
  "Sleep ms \<in> set (attempt_events w maxAttempts interval b j) \<Longrightarrow> ms = interval"
  by (cases "dynamodb_scan w (b + j) 1") (auto simp: attempt_events_def)

lemma attempt_events_sleep:
  "Sleep ms \<in> set (concat (map (attempt_events w maxAttempts interval b) js)) \<Longrightarrow> ms = interval"
  by (auto dest: attempt_events_sleep1)

lemma attempt_events_no_timeout1:
  "LogError MsgTimeout \<notin> set (attempt_events w maxAttempts interval b j)"
  by (cases "dynamodb_scan w (b + j) 1") (auto simp: attempt_events_def)

lemma attempt_events_no_timeout:
  "LogError MsgTimeout \<notin> set (concat (map (attempt_events w maxAttempts interval b) js))"
  by (auto simp: attempt_events_no_timeout1)

lemma attempt_events_sleep_count1:
  "\<not> found w b j \<Longrightarrow>
   length (filter (\<lambda>e. e = Sleep interval) (attempt_events w maxAttempts interval b j))
     = (if saw_empty w b j then 1 else 0)"
  by (cases "dynamodb_scan w (b + j) 1") (auto simp: attempt_events_def found_def saw_empty_def)

lemma attempt_events_sleep_count:
  "\<forall>j\<in>set js. \<not> found w b j \<Longrightarrow>
   length (filter (\<lambda>e. e = Sleep interval) (concat (map (attempt_events w maxAttempts interval b) js)))
     = length (filter (saw_empty w b) js)"
  by (induction js) (simp_all add: attempt_events_sleep_count1)

section \<open>The runs of \<open>main\<close>\<close>

lemma exit_code_process_exit [simp]: "exit_code (process_exit code s) = code"
  by (simp add: process_exit_def)

lemma out_trace_process_exit [simp]: "out_trace (process_exit code s) = trace s"
  by (simp add: process_exit_def)

lemma exit_code_main_catch [simp]: "exit_code (main_catch err s) = 1"
  by (simp add: main_catch_def)

lemma fst_checkLocalStack [simp]: "fst (checkLocalStack w s) = returned (s3_listBuckets w)"
  by (simp add: checkLocalStack_def returned_def Let_def split: reply.split)

lemma fst_checkBucket [simp]: "fst (checkBucket w s) = returned (s3_headBucket w)"
  by (simp add: checkBucket_def returned_def Let_def split: reply.split)

lemma fst_checkTable [simp]: "fst (checkTable w s) = returned (dynamodb_scan w (scans s) 1)"
  by (simp add: checkTable_def returned_def step_defs split: reply.split)

lemma scans_checkLocalStack [simp]: "scans (snd (checkLocalStack w s)) = scans s"
  by (simp add: checkLocalStack_def step_defs Let_def split: reply.split)

lemma scans_checkBucket [simp]: "scans (snd (checkBucket w s)) = scans s"
  by (simp add: checkBucket_def step_defs Let_def split: reply.split)

lemma fst_uploadTestFile:
  "fst (uploadTestFile w s) =
     (if \<not> fs_existsSync w then Returns False
      else case fs_readFileSync w of
             Throws err \<Rightarrow> Throws err
           | Returns fileContent \<Rightarrow> Returns (returned (s3_putObject w)))"
  by (simp add: uploadTestFile_def returned_def Let_def split: reply.split)

lemma scans_after_title [simp]: "scans after_title = 0"
  by (simp add: after_title_def initial_state_def step_defs)

lemma trace_after_title:
  "trace after_title = [ConsoleLog RuleLine, Log None MsgTitle magenta, ConsoleLog RuleLine]"
  by (simp add: after_title_def initial_state_def step_defs)

lemma main_exit_code:
  "exit_code (main w) = (if checks_pass w \<and> (fs_existsSync w \<longrightarrow> returned (fs_readFileSync w)) then 0 else 1)"
  by (simp add: main_def Let_def case_prod_beta fst_uploadTestFile after_title_def [symmetric] checks_pass_def
        returned_def [of "fs_readFileSync w"] split: reply.split)

lemma main_emulator_down:
  "\<not> returned (s3_listBuckets w) \<Longrightarrow>
   main w = \<lparr>out_trace = [ConsoleLog RuleLine, Log None MsgTitle magenta, ConsoleLog RuleLine,
                 LogInfo MsgCheckingLocalStack, ListBuckets, LogError MsgLocalStackDown,
                 LogError MsgCritical],
            exit_code = 1\<rparr>"
  by (simp add: main_def Let_def case_prod_beta after_title_def [symmetric])
     (simp add: checkLocalStack_def returned_def process_exit_def trace_after_title step_defs split: reply.splits)

lemma main_bucket_missing:
  "returned (s3_listBuckets w) \<Longrightarrow> \<not> returned (s3_headBucket w) \<Longrightarrow>
   main w = \<lparr>out_trace = [ConsoleLog RuleLine, Log None MsgTitle magenta, ConsoleLog RuleLine,
                 LogInfo MsgCheckingLocalStack, ListBuckets, LogSuccess MsgLocalStackActive,
                 LogInfo (MsgCheckingBucket BUCKET_NAME), HeadBucket BUCKET_NAME,
                 LogError (MsgBucketMissing BUCKET_NAME),
                 LogError MsgResourcesUnavailable],
            exit_code = 1\<rparr>"
  by (simp add: main_def Let_def case_prod_beta after_title_def [symmetric])
     (simp add: checkLocalStack_def checkBucket_def returned_def process_exit_def trace_after_title step_defs split: reply.splits)

lemma main_table_missing:
  "returned (s3_listBuckets w) \<Longrightarrow> returned (s3_headBucket w) \<Longrightarrow>
   dynamodb_scan w 0 1 = Throws err \<Longrightarrow>
   main w = \<lparr>out_trace = [ConsoleLog RuleLine, Log None MsgTitle magenta, ConsoleLog RuleLine,
                 LogInfo MsgCheckingLocalStack, ListBuckets, LogSuccess MsgLocalStackActive,
                 LogInfo (MsgCheckingBucket BUCKET_NAME), HeadBucket BUCKET_NAME,
                 LogSuccess (MsgBucketExists BUCKET_NAME),
                 LogInfo (MsgCheckingTable TABLE_NAME), Scan TABLE_NAME 1,
                 LogError (MsgTableNotAccessible TABLE_NAME err),
                 LogError MsgResourcesUnavailable],
            exit_code = 1\<rparr>"
  by (simp add: main_def Let_def case_prod_beta after_title_def [symmetric] returned_def)
     (simp add: checkLocalStack_def checkBucket_def checkTable_def returned_def process_exit_def trace_after_title step_defs split: reply.splits)

lemma main_completed:
  "checks_pass w \<Longrightarrow> uploaded w = Returns up \<Longrightarrow>
   main w = \<lparr>out_trace = trace (cleanup (after_api w))
                 @ [ConsoleLog RuleLine,
                    if up \<and> processed w \<and> verified w \<and> api_passed w
                    then Log None MsgAllPassed green else Log None MsgSomeFailed yellow,
                    ConsoleLog RuleLine],
            exit_code = 0\<rparr>"
  by (simp add: main_def Let_def case_prod_beta after_title_def [symmetric] checks_pass_def)
     (simp add: uploaded_def after_checks_def after_upload_def processed_def after_polling_def verified_def
        after_verification_def api_passed_def after_api_def process_exit_def emit_def log_line_def
        Let_def case_prod_beta)

lemma main_rejected:
  "checks_pass w \<Longrightarrow> uploaded w = Throws err \<Longrightarrow>
   main w = \<lparr>out_trace = trace (after_upload w) @ [LogError (MsgFatal err), ConsoleError (ErrorObject err)],
            exit_code = 1\<rparr>"
  by (simp add: main_def Let_def case_prod_beta after_title_def [symmetric] checks_pass_def)
     (simp add: uploaded_def after_checks_def after_upload_def main_catch_def process_exit_def emit_def log_line_def error_def)

text \<open>Only the upload step calls \<open>putObject\<close>.\<close>

lemma put_cleanup [simp]:
  "PutObject b k \<in> set (trace (cleanup s)) \<longleftrightarrow> PutObject b k \<in> set (trace s)"
  by (simp add: cleanup_def step_defs)

lemma put_sleep [simp]:
  "PutObject b k \<in> set (trace (sleep ms s)) \<longleftrightarrow> PutObject b k \<in> set (trace s)"
  by (simp add: step_defs)

lemma put_attempt_events: "PutObject b k \<notin> set (attempt_events w maxAttempts interval c j)"
  by (cases "dynamodb_scan w (c + j) 1") (auto simp: attempt_events_def)

lemma put_waitForProcessing [simp]:
  "PutObject b k \<in> set (trace (snd (waitForProcessing w maxAttempts interval s)))
     \<longleftrightarrow> PutObject b k \<in> set (trace s)"
  unfolding waitForProcessing_closed by (simp add: Let_def put_attempt_events)

lemma put_verifyData [simp]:
  "PutObject b k \<in> set (trace (snd (verifyData w s))) \<longleftrightarrow> PutObject b k \<in> set (trace s)"
  by (simp add: verifyData_def step_defs Let_def split: reply.split list.split option.split)

lemma put_testApi [simp]:
  "PutObject b k \<in> set (trace (snd (testApi w s))) \<longleftrightarrow> PutObject b k \<in> set (trace s)"
  by (simp add: testApi_def api_catch_def step_defs Let_def split: reply.split)

lemma put_checks [simp]: "PutObject b k \<notin> set (trace (after_checks w))"
  by (simp add: after_checks_def checkLocalStack_def checkBucket_def checkTable_def
        trace_after_title step_defs Let_def split: reply.split)

lemma uploadTestFile_missing:
  "\<not> fs_existsSync w \<Longrightarrow>
   uploadTestFile w s =
     (Returns False, s\<lparr>trace := trace s @ [LogInfo MsgUploading, ExistsSync, LogError MsgFixtureNotFound]\<rparr>)"
  by (simp add: uploadTestFile_def step_defs)

section \<open>The runs of the setup script\<close>

lemma fst_execute [simp]: "fst (execute w command options s) = returned (snd (execSync w command))"
  by (simp add: execute_def run_child_def returned_def Let_def split: reply.split)

lemma execute_timers [simp]:
  "execute w command options (s\<lparr>timers := ts\<rparr>) =
     (fst (execute w command options s), (snd (execute w command options s))\<lparr>timers := ts\<rparr>)"
  by (simp add: execute_def run_child_def console_log_def console_error_def Let_def split: reply.split)

lemma console_log_timers [simp]: "console_log m (s\<lparr>timers := ts\<rparr>) = (console_log m s)\<lparr>timers := ts\<rparr>"
  by (simp add: console_log_def)

lemma console_error_timers [simp]: "console_error m (s\<lparr>timers := ts\<rparr>) = (console_error m s)\<lparr>timers := ts\<rparr>"
  by (simp add: console_error_def)

lemma checkFile_timers [simp]:
  "checkFile w filePath (s\<lparr>timers := ts\<rparr>) =
     (fst (checkFile w filePath s), (snd (checkFile w filePath s))\<lparr>timers := ts\<rparr>)"
  by (simp add: checkFile_def)

lemma fst_checkFile [simp]: "fst (checkFile w filePath s) = existsSync w filePath"
  by (simp add: checkFile_def)

lemma timers_execute [simp]: "timers (snd (execute w command options s)) = timers s"
  by (simp add: execute_def run_child_def console_log_def console_error_def Let_def split: reply.split)

lemma timers_console_log [simp]: "timers (console_log m s) = timers s"
  by (simp add: console_log_def)

lemma timers_checkFile [simp]: "timers (snd (checkFile w filePath s)) = timers s"
  by (simp add: checkFile_def)

lemma clock_execute [simp]:
  "clock (snd (execute w command options s)) = clock s + fst (execSync w command)"
  by (simp add: execute_def run_child_def console_log_def console_error_def Let_def split: reply.split)

lemma clock_console_log [simp]: "clock (console_log m s) = clock s"
  by (simp add: console_log_def)

lemma clock_checkFile [simp]: "clock (snd (checkFile w filePath s)) = clock s"
  by (simp add: checkFile_def)

lemma setup_exit_timers [simp]: "setup_exit code (s\<lparr>timers := ts\<rparr>) = setup_exit code s"
  by (simp add: setup_exit_def)

lemma setup_exit_code_exit [simp]: "setup_exit_code (setup_exit code s) = code"
  by (simp add: setup_exit_def)

lemma setup_exit_code_uncaught [simp]: "setup_exit_code (setup_uncaught err s) = 1"
  by (simp add: setup_uncaught_def)

lemma setup_exit_code_finish [simp]: "setup_exit_code (setup_finish s) = 0"
  by (simp add: setup_finish_def)

lemma setup_events_finish_timers [simp]:
  "setup_events (setup_finish (s\<lparr>timers := ts\<rparr>)) = setup_events (setup_finish s)"
  by (simp add: setup_finish_def)

lemma setup_finish_expired:
  "timers s = [] \<Longrightarrow> d \<le> clock s \<Longrightarrow> setup_finish (s\<lparr>timers := [d]\<rparr>) = setup_finish s"
  by (simp add: setup_finish_def max_absorb2)

text \<open>The deployment and everything after it ignore the timers but for the exit time.\<close>

lemma deploy_and_test_exit_code:
  "setup_exit_code (deploy_and_test w s) =
     (if returned (snd (execSync w ''serverless deploy --stage local --verbose'')) then 0 else 1)"
  by (simp add: deploy_and_test_def Let_def case_prod_beta)

lemma deploy_and_test_events_timers:
  "setup_events (deploy_and_test w (s\<lparr>timers := ts\<rparr>)) = setup_events (deploy_and_test w s)"
  by (simp add: deploy_and_test_def Let_def case_prod_beta)

lemma deploy_and_test_expired:
  "timers s = [] \<Longrightarrow> d \<le> clock s \<Longrightarrow> deploy_and_test w (s\<lparr>timers := [d]\<rparr>) = deploy_and_test w s"
  by (simp add: deploy_and_test_def Let_def case_prod_beta setup_finish_expired)

text \<open>What holds of the wait step on states without timers holds of the whole script.\<close>

lemma setup_with_cong:
  assumes "\<And>s. timers s = [] \<Longrightarrow> f (wait1 w s) = f (wait2 w s)"
  shows "f (setup_with wait1 w) = f (setup_with wait2 w)"
  by (simp add: setup_with_def Let_def case_prod_beta assms setup_start_def)

lemma setup_with_exit_code:
  assumes "\<And>s. setup_exit_code (wait w s) = (if c then 0 else 1)"
  shows "setup_exit_code (setup_with wait w) =
     (if existsSync w ''package.json'' \<and> returned (snd (execSync w ''npm install''))
         \<and> returned (snd (execSync w ''docker ps''))
         \<and> returned (snd (execSync w ''docker-compose up -d'')) \<and> c
      then 0 else 1)"
  by (simp add: setup_with_def Let_def case_prod_beta assms)

lemma wait_step_exit_code:
  "setup_exit_code (wait_step w s) =
     (if returned (snd (execSync w ''sleep 30''))
         \<and> returned (snd (execSync w ''serverless deploy --stage local --verbose''))
      then 0 else 1)"
  by (simp add: wait_step_def run_child_def Let_def returned_def deploy_and_test_exit_code
        split: reply.split)

lemma wait_step_returns:
  assumes "snd (execSync w ''sleep 30'') = Returns u"
  shows "wait_step w s =
           deploy_and_test w
             ((console_log WaitingForLocalStack s)
                \<lparr>events := events (console_log WaitingForLocalStack s) @ [Ran ''sleep 30'' inherit],
                 clock := clock s + fst (execSync w ''sleep 30'')\<rparr>
                \<lparr>timers := (clock s + 30000) # timers s\<rparr>)"
    and "wait_step_single w s =
           deploy_and_test w
             ((console_log WaitingForLocalStack s)
                \<lparr>events := events (console_log WaitingForLocalStack s) @ [Ran ''sleep 30'' inherit],
                 clock := clock s + fst (execSync w ''sleep 30'')\<rparr>)"
proof -
  have order: "(setTimeout_noop 30000 (console_log WaitingForLocalStack s))
          \<lparr>events := events (setTimeout_noop 30000 (console_log WaitingForLocalStack s))
                       @ [Ran ''sleep 30'' inherit],
           clock := clock (setTimeout_noop 30000 (console_log WaitingForLocalStack s))
                      + fst (execSync w ''sleep 30'')\<rparr>
      = (console_log WaitingForLocalStack s)
          \<lparr>events := events (console_log WaitingForLocalStack s) @ [Ran ''sleep 30'' inherit],
           clock := clock s + fst (execSync w ''sleep 30'')\<rparr>
          \<lparr>timers := (clock s + 30000) # timers s\<rparr>"
    by (cases s) (simp add: setTimeout_noop_def console_log_def)
  show "wait_step w s =
           deploy_and_test w
             ((console_log WaitingForLocalStack s)
                \<lparr>events := events (console_log WaitingForLocalStack s) @ [Ran ''sleep 30'' inherit],
                 clock := clock s + fst (execSync w ''sleep 30'')\<rparr>
                \<lparr>timers := (clock s + 30000) # timers s\<rparr>)"
    unfolding wait_step_def run_child_def Let_def order using assms by simp
  show "wait_step_single w s =
           deploy_and_test w
             ((console_log WaitingForLocalStack s)
                \<lparr>events := events (console_log WaitingForLocalStack s) @ [Ran ''sleep 30'' inherit],
                 clock := clock s + fst (execSync w ''sleep 30'')\<rparr>)"
    using assms by (simp add: wait_step_single_def run_child_def Let_def)
qed

lemma wait_step_throws:
  assumes "snd (execSync w ''sleep 30'') = Throws err"
  shows "wait_step w s = wait_step_single w s"
  using assms
  by (simp add: wait_step_def wait_step_single_def run_child_def setTimeout_noop_def Let_def
        setup_uncaught_def)

lemma wait_step_events:
  "setup_events (wait_step w s) = setup_events (wait_step_single w s)"
proof (cases "snd (execSync w ''sleep 30'')")
  case (Throws err)
  then show ?thesis by (simp only: wait_step_throws)
next
  case (Returns u)
  show ?thesis
    unfolding wait_step_returns [OF Returns] by (rule deploy_and_test_events_timers)
qed

lemma wait_step_code:
  "setup_exit_code (wait_step w s) = setup_exit_code (wait_step_single w s)"
proof (cases "snd (execSync w ''sleep 30'')")
  case (Throws err)
  then show ?thesis by (simp only: wait_step_throws)
next
  case (Returns u)
  show ?thesis
    unfolding wait_step_returns [OF Returns] by (simp only: deploy_and_test_exit_code)
qed

lemma wait_step_same:
  assumes "timers s = []"
    and "returned (snd (execSync w ''sleep 30'')) \<longrightarrow> 30000 \<le> fst (execSync w ''sleep 30'')"
  shows "wait_step w s = wait_step_single w s"
proof (cases "snd (execSync w ''sleep 30'')")
  case (Throws err)
  then show ?thesis by (rule wait_step_throws)
next
  case (Returns u)
  have long: "30000 \<le> fst (execSync w ''sleep 30'')"
    using assms(2) Returns by (simp add: returned_def)
  show ?thesis
    unfolding wait_step_returns [OF Returns] assms(1)
    using assms(1) long by (intro deploy_and_test_expired) simp_all
qed


section \<open>Claims about the polling loop\<close>

text \<open>
  Claim C1, as amended. For every run of \<open>waitForProcessing\<close> with attempt budget
  \<open>maxAttempts\<close> and interval \<open>interval\<close>, started after \<open>scans s\<close> scans:
  the loop makes \<open>n \<le> maxAttempts\<close> scans; it returns success exactly when one of the
  attempts within the budget finds a non-empty result set, and then the successful scan
  is the last one made and no earlier attempt found data; it returns failure only after
  all \<open>maxAttempts\<close> attempts, none of which found data (each saw an empty result or
  a scan error), and the timeout message is logged exactly in that case; every sleep
  of the loop lasts \<open>interval\<close> milliseconds, and there is one sleep for each attempt
  that saw an empty result (none for an attempt whose scan threw).
\<close>

theorem polling_bounded_attempts:
  assumes run: "waitForProcessing w maxAttempts interval s = (ok, s')"
  shows "\<exists>n evs. scans s' = scans s + n \<and> trace s' = trace s @ evs \<and> n \<le> maxAttempts
           \<and> (ok \<longleftrightarrow> (\<exists>j<maxAttempts. found w (scans s) j))
           \<and> (ok \<longrightarrow> 0 < n \<and> found w (scans s) (n - 1) \<and> (\<forall>j<n - 1. \<not> found w (scans s) j))
           \<and> (\<not> ok \<longrightarrow> n = maxAttempts \<and> (\<forall>j<maxAttempts. \<not> found w (scans s) j))
           \<and> (LogError MsgTimeout \<in> set evs \<longleftrightarrow> \<not> ok)
           \<and> (\<forall>ms. Sleep ms \<in> set evs \<longrightarrow> ms = interval)
           \<and> length (filter (\<lambda>e. e = Sleep interval) evs)
               = length (filter (saw_empty w (scans s)) [0..<n])"
proof -
  define b where "b = scans s"
  define js where "js = failed_attempts w maxAttempts b 0"
  define k where "k = length js"
  define mid where "mid = concat (map (attempt_events w maxAttempts interval b) js)"
  have js: "js = [0..<k]" unfolding k_def js_def by (rule failed_attempts_upt)
  have nf: "\<not> found w b j" if "j < k" for j
    using that failed_attempts_not_found [of j w maxAttempts b 0] js by (simp add: js_def [symmetric])
  have kle: "k \<le> maxAttempts"
    using failed_attempts_length [of 0 maxAttempts w b] by (simp add: k_def js_def)
  have sl: "ms = interval" if "Sleep ms \<in> set mid" for ms
    using that unfolding mid_def by (rule attempt_events_sleep)
  have nt: "LogError MsgTimeout \<notin> set mid"
    unfolding mid_def by (rule attempt_events_no_timeout)
  have cnt: "length (filter (\<lambda>e. e = Sleep interval) mid) = length (filter (saw_empty w b) [0..<k])"
    using attempt_events_sleep_count [of js w b interval maxAttempts] nf js
    by (simp add: mid_def)
  have closed: "waitForProcessing w maxAttempts interval s =
      (if k < maxAttempts
       then (True, \<lparr>trace = trace s @ LogInfo MsgWaiting # mid @ [Scan TABLE_NAME 1, LogSuccess MsgProcessedFound],
                    scans = b + k + 1\<rparr>)
       else (False, \<lparr>trace = trace s @ LogInfo MsgWaiting # mid @ [LogError MsgTimeout],
                     scans = b + maxAttempts\<rparr>))"
    unfolding waitForProcessing_closed by (simp add: Let_def b_def js_def k_def mid_def)
  show ?thesis
  proof (cases "k < maxAttempts")
    case True
    have fk: "found w b k" using failed_attempts_stop [of w maxAttempts b] True
      by (simp add: k_def js_def)
    then have ne: "\<not> saw_empty w b k" by (simp add: found_def saw_empty_def split: reply.splits)
    from run closed True have ok: "ok" and s': "s' = \<lparr>trace = trace s @ LogInfo MsgWaiting # mid @ [Scan TABLE_NAME 1, LogSuccess MsgProcessedFound], scans = b + k + 1\<rparr>"
      by simp_all
    let ?evs = "LogInfo MsgWaiting # mid @ [Scan TABLE_NAME 1, LogSuccess MsgProcessedFound]"
    have "scans s' = scans s + (k + 1)" by (simp add: s' b_def)
    moreover have "trace s' = trace s @ ?evs" by (simp add: s')
    moreover have "k + 1 \<le> maxAttempts" using True by simp
    moreover have "\<exists>j<maxAttempts. found w (scans s) j" using True fk b_def by blast
    moreover have "\<forall>j<k. \<not> found w (scans s) j" using nf b_def by blast
    moreover have "LogError MsgTimeout \<notin> set ?evs" using nt by simp
    moreover have "\<forall>ms. Sleep ms \<in> set ?evs \<longrightarrow> ms = interval" using sl by auto
    moreover have "length (filter (\<lambda>e. e = Sleep interval) ?evs) = length (filter (saw_empty w (scans s)) [0..<k + 1])"
      using cnt ne by (simp add: b_def)
    ultimately show ?thesis using ok fk b_def
      apply (intro exI [of _ "k + 1"] exI [of _ ?evs])
      apply simp
      done
  next
    case False
    with kle have keq: "k = maxAttempts" by simp
    from run closed False have ok: "\<not> ok" and s': "s' = \<lparr>trace = trace s @ LogInfo MsgWaiting # mid @ [LogError MsgTimeout], scans = b + maxAttempts\<rparr>"
      by simp_all
    let ?evs = "LogInfo MsgWaiting # mid @ [LogError MsgTimeout]"
    have "scans s' = scans s + maxAttempts" by (simp add: s' b_def)
    moreover have "trace s' = trace s @ ?evs" by (simp add: s')
    moreover have "\<forall>j<maxAttempts. \<not> found w (scans s) j" using nf keq b_def by blast
    moreover have "LogError MsgTimeout \<in> set ?evs" by simp
    moreover have "\<forall>ms. Sleep ms \<in> set ?evs \<longrightarrow> ms = interval" using sl by auto
    moreover have "length (filter (\<lambda>e. e = Sleep interval) ?evs) = length (filter (saw_empty w (scans s)) [0..<maxAttempts])"
      using cnt keq by (simp add: b_def)
    ultimately show ?thesis using ok
      apply (intro exI [of _ maxAttempts] exI [of _ ?evs])
      apply simp
      done
  qed
qed

text \<open>
  The theorem at work: with the healthy emulator and the budget of \<open>main\<close>, polling
  succeeds with its fourth scan, after two empty results and one failed scan.
\<close>

theorem polling_bounded_attempts_witness:
  "waitForProcessing healthy 10 2000 initial_state =
     (True, \<lparr>trace = [LogInfo MsgWaiting,
                Scan TABLE_NAME 1, LogWarning (MsgAttempt 1 10), Sleep 2000,
                Scan TABLE_NAME 1, LogWarning (MsgAttempt 2 10), Sleep 2000,
                Scan TABLE_NAME 1, LogWarning (MsgScanError ''ResourceNotFound''),
                Scan TABLE_NAME 1, LogSuccess MsgProcessedFound],
              scans = 4\<rparr>)
   \<and> (\<exists>j<10. found healthy 0 j)"
proof -
  have run: "waitForProcessing healthy 10 2000 initial_state =
     (True, \<lparr>trace = [LogInfo MsgWaiting,
                Scan TABLE_NAME 1, LogWarning (MsgAttempt 1 10), Sleep 2000,
                Scan TABLE_NAME 1, LogWarning (MsgAttempt 2 10), Sleep 2000,
                Scan TABLE_NAME 1, LogWarning (MsgScanError ''ResourceNotFound''),
                Scan TABLE_NAME 1, LogSuccess MsgProcessedFound],
              scans = 4\<rparr>)"
    by (simp add: waitForProcessing_def waitForProcessing_loop.simps healthy_def step_defs
          initial_state_def has_items_def)
  from polling_bounded_attempts [OF run]
  have "\<exists>j<10. found healthy (scans initial_state) j" by blast
  then show ?thesis using run by (simp add: initial_state_def)
qed

text \<open>
  Claim C1 as stated fails where scans throw: with a budget of two attempts and a table
  whose every scan fails, the two attempts follow each other without any sleep between
  them, and failure is returned although no attempt has seen an empty result.
\<close>

theorem polling_sleep_counterexample:
  "waitForProcessing table_down 2 2000 initial_state =
     (False, \<lparr>trace = [LogInfo MsgWaiting,
                 Scan TABLE_NAME 1, LogWarning (MsgScanError ''ResourceNotFound''),
                 Scan TABLE_NAME 1, LogWarning (MsgScanError ''ResourceNotFound''),
                 LogError MsgTimeout],
               scans = 2\<rparr>)
   \<and> \<not> saw_empty table_down 0 0 \<and> \<not> saw_empty table_down 0 1"
  by (simp add: waitForProcessing_def waitForProcessing_loop.simps table_down_def healthy_def
        step_defs initial_state_def has_items_def saw_empty_def)

text \<open>
  Claim C9. The trace of a polling run in closed form: after the opening message come the
  events of the attempts without data, in order, then either the successful scan or the
  timeout message. By \<open>attempt_events\<close>, an attempt whose scan throws leaves the scan
  and the warning and no sleep, and the next attempt (number \<open>j + 1\<close> of the
  budget) follows at once; an attempt that sees an empty result leaves the scan, the
  warning and a sleep of \<open>interval\<close> milliseconds. In the failing case all attempts
  \<open>0 ..< maxAttempts\<close> are listed, so a last attempt with an empty result is
  followed by its sleep and only then by the timeout message, and every attempt,
  thrown or empty, has used one unit of the budget.
\<close>

theorem polling_attempts_and_sleeps:
  "waitForProcessing w maxAttempts interval s =
     (let b = scans s; js = failed_attempts w maxAttempts b 0 in
      if length js < maxAttempts
      then (True, \<lparr>trace = trace s @ LogInfo MsgWaiting
                              # concat (map (attempt_events w maxAttempts interval b) js)
                              @ [Scan TABLE_NAME 1, LogSuccess MsgProcessedFound],
                     scans = b + length js + 1\<rparr>)
      else (False, \<lparr>trace = trace s @ LogInfo MsgWaiting
                              # concat (map (attempt_events w maxAttempts interval b) [0..<maxAttempts])
                              @ [LogError MsgTimeout],
                      scans = b + maxAttempts\<rparr>))"
proof -
  let ?js = "failed_attempts w maxAttempts (scans s) 0"
  have le: "length ?js \<le> maxAttempts"
    using failed_attempts_length [of 0 maxAttempts w "scans s"] by simp
  have "?js = [0..<maxAttempts]" if "\<not> length ?js < maxAttempts"
    using that le failed_attempts_upt [of w maxAttempts "scans s"] by simp
  then show ?thesis
    unfolding waitForProcessing_closed by (simp add: Let_def)
qed

text \<open>
  The theorem at work: three attempts on a table that stays empty and whose second
  scan fails. No sleep follows the failed scan; a sleep follows the third, last attempt
  before the timeout is reported.
\<close>

theorem polling_attempts_and_sleeps_witness:
  "waitForProcessing never_processed 3 2000 initial_state =
     (False, \<lparr>trace = [LogInfo MsgWaiting,
                 Scan TABLE_NAME 1, LogWarning (MsgAttempt 1 3), Sleep 2000,
                 Scan TABLE_NAME 1, LogWarning (MsgScanError ''Timeout''),
                 Scan TABLE_NAME 1, LogWarning (MsgAttempt 3 3), Sleep 2000,
                 LogError MsgTimeout],
               scans = 3\<rparr>)"
  using polling_attempts_and_sleeps [of never_processed 3 2000 initial_state]
  by (simp add: failed_attempts_def found_def attempt_events_def never_processed_def healthy_def
        initial_state_def has_items_def upt_conv_Cons)

section \<open>Claims about the exit code and the sequence of steps\<close>

text \<open>
  Claim C2, as amended. The exit code of the test runner is 0 exactly when the three
  availability checks succeed and reading the fixture, if it exists, does not throw;
  otherwise it is 1. Nothing else enters: the answers of \<open>putObject\<close>, of the later
  scans, of the function invocation and of \<open>JSON.parse\<close> do not occur in the
  condition. In a run with exit code 0 the results of the four steps (upload, polling,
  verification, API test) only select the summary line printed last.
\<close>

theorem test_runner_exit_code:
  "exit_code (main w) =
     (if checks_pass w \<and> (fs_existsSync w \<longrightarrow> returned (fs_readFileSync w)) then 0 else 1)
   \<and> (checks_pass w \<and> (fs_existsSync w \<longrightarrow> returned (fs_readFileSync w)) \<longrightarrow>
        out_trace (main w) =
          trace (cleanup (after_api w))
            @ [ConsoleLog RuleLine,
               if uploaded w = Returns True \<and> processed w \<and> verified w \<and> api_passed w
               then Log None MsgAllPassed green else Log None MsgSomeFailed yellow,
               ConsoleLog RuleLine])"
proof (intro conjI impI)
  show "exit_code (main w) =
     (if checks_pass w \<and> (fs_existsSync w \<longrightarrow> returned (fs_readFileSync w)) then 0 else 1)"
    by (rule main_exit_code)
next
  assume ok: "checks_pass w \<and> (fs_existsSync w \<longrightarrow> returned (fs_readFileSync w))"
  then have "\<exists>up. uploaded w = Returns up"
    by (auto simp: uploaded_def fst_uploadTestFile returned_def split: reply.splits)
  then obtain up where up: "uploaded w = Returns up" ..
  from ok have "checks_pass w" ..
  from main_completed [OF this up] show "out_trace (main w) =
          trace (cleanup (after_api w))
            @ [ConsoleLog RuleLine,
               if uploaded w = Returns True \<and> processed w \<and> verified w \<and> api_passed w
               then Log None MsgAllPassed green else Log None MsgSomeFailed yellow,
               ConsoleLog RuleLine]"
    by (simp add: up)
qed

text \<open>
  The theorem at work: the bucket refuses the upload. The checks pass, the upload step
  returns failure, the exit code is 0 and the summary reports that some tests failed.
\<close>

theorem test_runner_exit_code_witness:
  "checks_pass upload_rejected \<and> uploaded upload_rejected = Returns False
   \<and> exit_code (main upload_rejected) = 0
   \<and> out_trace (main upload_rejected) =
        trace (cleanup (after_api upload_rejected))
          @ [ConsoleLog RuleLine, Log None MsgSomeFailed yellow, ConsoleLog RuleLine]"
proof -
  have c: "checks_pass upload_rejected"
    by (simp add: checks_pass_def returned_def upload_rejected_def healthy_def)
  have r: "fs_existsSync upload_rejected \<longrightarrow> returned (fs_readFileSync upload_rejected)"
    by (simp add: returned_def upload_rejected_def healthy_def)
  have u: "uploaded upload_rejected = Returns False"
    by (simp add: uploaded_def fst_uploadTestFile returned_def upload_rejected_def healthy_def)
  show ?thesis
    using test_runner_exit_code [of upload_rejected] c r u by simp
qed

text \<open>
  Claim C2 as stated fails when the fixture exists but cannot be read: all three
  availability checks succeed, the exception of \<open>readFileSync\<close> leaves
  \<open>uploadTestFile\<close> uncaught and reaches the handler of \<open>main\<close>, and the exit code
  is 1.
\<close>

theorem unreadable_fixture_counterexample:
  "checks_pass fixture_unreadable \<and> exit_code (main fixture_unreadable) = 1"
  by (simp add: main_exit_code checks_pass_def returned_def fixture_unreadable_def healthy_def)

text \<open>
  Claim C3. If the initial list-buckets call fails, the run consists of the title, the
  announcement of the check, the call itself and the two error messages, and ends with
  exit code 1: no bucket or table check, no file access, no upload, no sleep, no scan
  and no invocation takes place.
\<close>

theorem emulator_unreachable_stops_run:
  "\<not> returned (s3_listBuckets w) \<Longrightarrow>
   exit_code (main w) = 1 \<and>
   out_trace (main w) =
     [ConsoleLog RuleLine, Log None MsgTitle magenta, ConsoleLog RuleLine,
      LogInfo MsgCheckingLocalStack, ListBuckets, LogError MsgLocalStackDown,
      LogError MsgCritical]"
  by (simp add: main_emulator_down)

theorem emulator_unreachable_stops_run_witness:
  "\<not> returned (s3_listBuckets emulator_down) \<and>
   exit_code (main emulator_down) = 1 \<and>
   out_trace (main emulator_down) =
     [ConsoleLog RuleLine, Log None MsgTitle magenta, ConsoleLog RuleLine,
      LogInfo MsgCheckingLocalStack, ListBuckets, LogError MsgLocalStackDown,
      LogError MsgCritical]"
proof -
  have h: "\<not> returned (s3_listBuckets emulator_down)"
    by (simp add: returned_def emulator_down_def healthy_def)
  from emulator_unreachable_stops_run [OF h] h show ?thesis by simp
qed

text \<open>
  Claim C4. If \<open>headBucket\<close> or the probe scan fails, the run ends with exit code 1
  and contains no step of the upload: neither the existence test of the fixture, nor
  its reading, nor a call of \<open>putObject\<close>. When the emulator itself answered, the
  last line printed is the message that the resources are not available.
\<close>

theorem missing_resources_exit_before_upload:
  assumes "\<not> returned (s3_headBucket w) \<or> \<not> returned (dynamodb_scan w 0 1)"
  shows "exit_code (main w) = 1
       \<and> ExistsSync \<notin> set (out_trace (main w))
       \<and> ReadFileSync \<notin> set (out_trace (main w))
       \<and> (\<forall>b k. PutObject b k \<notin> set (out_trace (main w)))
       \<and> (returned (s3_listBuckets w) \<longrightarrow> last (out_trace (main w)) = LogError MsgResourcesUnavailable)"
proof (cases "returned (s3_listBuckets w)")
  case False
  then show ?thesis by (simp add: main_emulator_down)
next
  case lb: True
  show ?thesis
  proof (cases "returned (s3_headBucket w)")
    case False
    with lb show ?thesis by (simp add: main_bucket_missing)
  next
    case hb: True
    with assms obtain err where "dynamodb_scan w 0 1 = Throws err"
      by (cases "dynamodb_scan w 0 1") (auto simp: returned_def)
    from main_table_missing [OF lb hb this] lb show ?thesis by simp
  qed
qed

theorem missing_resources_exit_before_upload_witness:
  "\<not> returned (s3_headBucket bucket_missing)
   \<and> exit_code (main bucket_missing) = 1
   \<and> ExistsSync \<notin> set (out_trace (main bucket_missing))
   \<and> ReadFileSync \<notin> set (out_trace (main bucket_missing))
   \<and> (\<forall>b k. PutObject b k \<notin> set (out_trace (main bucket_missing)))
   \<and> last (out_trace (main bucket_missing)) = LogError MsgResourcesUnavailable"
proof -
  have hb: "\<not> returned (s3_headBucket bucket_missing)"
    by (simp add: returned_def bucket_missing_def healthy_def)
  then have h: "\<not> returned (s3_headBucket bucket_missing) \<or> \<not> returned (dynamodb_scan bucket_missing 0 1)"
    by (rule disjI1)
  have lb: "returned (s3_listBuckets bucket_missing)"
    by (simp add: returned_def bucket_missing_def healthy_def)
  from missing_resources_exit_before_upload [OF h] hb lb show ?thesis by simp
qed

text \<open>
  Claim C10. If the fixture file does not exist, \<open>uploadTestFile\<close> returns failure
  after the existence test and the error message, without reading a file and without
  calling \<open>putObject\<close>. In \<open>main\<close> this is a recoverable failure: when the
  availability checks have passed, the run goes on to its end, no \<open>putObject\<close>
  occurs anywhere in it, the exit code is 0 and the summary reports that some tests
  failed.
\<close>

theorem missing_fixture_is_recoverable:
  assumes "\<not> fs_existsSync w"
  shows "uploadTestFile w s =
           (Returns False,
            s\<lparr>trace := trace s @ [LogInfo MsgUploading, ExistsSync, LogError MsgFixtureNotFound]\<rparr>)
       \<and> (checks_pass w \<longrightarrow>
            exit_code (main w) = 0
          \<and> (\<forall>b k. PutObject b k \<notin> set (out_trace (main w)))
          \<and> (\<exists>evs. out_trace (main w) =
                 evs @ [ConsoleLog RuleLine, Log None MsgSomeFailed yellow, ConsoleLog RuleLine]))"
proof (intro conjI impI)
  show "uploadTestFile w s =
           (Returns False,
            s\<lparr>trace := trace s @ [LogInfo MsgUploading, ExistsSync, LogError MsgFixtureNotFound]\<rparr>)"
    using assms by (rule uploadTestFile_missing)
next
  assume c: "checks_pass w"
  have up: "uploaded w = Returns False"
    using assms by (simp add: uploaded_def uploadTestFile_missing)
  have au: "trace (after_upload w) =
      trace (after_checks w) @ [LogInfo MsgUploading, ExistsSync, LogError MsgFixtureNotFound]"
    using assms by (simp add: after_upload_def uploadTestFile_missing)
  note m = main_completed [OF c up]
  show "exit_code (main w) = 0" by (simp add: m)
  show "\<forall>b k. PutObject b k \<notin> set (out_trace (main w))"
    by (simp add: m after_api_def after_verification_def after_polling_def au)
  show "\<exists>evs. out_trace (main w) =
                 evs @ [ConsoleLog RuleLine, Log None MsgSomeFailed yellow, ConsoleLog RuleLine]"
    by (simp add: m)
qed

theorem missing_fixture_is_recoverable_witness:
  "\<not> fs_existsSync fixture_missing \<and> checks_pass fixture_missing
   \<and> uploadTestFile fixture_missing initial_state =
       (Returns False, \<lparr>trace = [LogInfo MsgUploading, ExistsSync, LogError MsgFixtureNotFound], scans = 0\<rparr>)
   \<and> exit_code (main fixture_missing) = 0
   \<and> (\<forall>b k. PutObject b k \<notin> set (out_trace (main fixture_missing)))
   \<and> (\<exists>evs. out_trace (main fixture_missing) =
          evs @ [ConsoleLog RuleLine, Log None MsgSomeFailed yellow, ConsoleLog RuleLine])"
proof -
  have h: "\<not> fs_existsSync fixture_missing"
    by (simp add: fixture_missing_def healthy_def)
  have c: "checks_pass fixture_missing"
    by (simp add: checks_pass_def returned_def fixture_missing_def healthy_def)
  from missing_fixture_is_recoverable [OF h, of initial_state] h c show ?thesis
    by (simp add: initial_state_def)
qed

section \<open>Claims about the verification and the API test\<close>

text \<open>
  Claim C5, as amended. When the verification scan returns at least one record,
  \<open>verifyData\<close> returns success, whatever fields the records have. The shape of the
  first record, and of no other, is checked by presence of the five names \<open>id\<close>,
  \<open>timestamp\<close>, \<open>nome\<close>, \<open>preco\<close> and \<open>source_file\<close>: if the first record
  has all of them a success line says so, otherwise one warning lists exactly the names
  absent from the first record, in the order of the list. The records after the first
  (\<open>rest\<close>) enter the result through their number only.
\<close>

theorem verification_reports_missing_fields:
  assumes "dynamodb_scan w (scans s) 100 = Returns (Some (firstItem # rest))"
  shows "verifyData w s =
     (True,
      \<lparr>trace = trace s @
         [LogInfo MsgVerifying, Scan TABLE_NAME 100,
          LogSuccess (MsgTotalRecords (Suc (length rest))),
          LogInfo MsgExampleRecord, ConsoleLog (ItemJson firstItem),
          if has_field ''id'' firstItem \<and> has_field ''timestamp'' firstItem
             \<and> has_field ''nome'' firstItem \<and> has_field ''preco'' firstItem
             \<and> has_field ''source_file'' firstItem
          then LogSuccess MsgAllFieldsPresent
          else LogWarning (MsgMissingFields
                 (filter (\<lambda>field. \<not> has_field field firstItem)
                    [''id'', ''timestamp'', ''nome'', ''preco'', ''source_file'']))],
       scans = Suc (scans s)\<rparr>)"
proof -
  let ?missing = "filter (\<lambda>field. \<not> has_field field firstItem) requiredFields"
  have empty: "(length ?missing = 0) =
      (has_field ''id'' firstItem \<and> has_field ''timestamp'' firstItem
       \<and> has_field ''nome'' firstItem \<and> has_field ''preco'' firstItem
       \<and> has_field ''source_file'' firstItem)"
    by (simp add: filter_empty_conv requiredFields_def)
  have run: "verifyData w s =
     (let s3 = \<lparr>trace = trace s @
         [LogInfo MsgVerifying, Scan TABLE_NAME 100,
          LogSuccess (MsgTotalRecords (Suc (length rest))),
          LogInfo MsgExampleRecord, ConsoleLog (ItemJson firstItem)], scans = Suc (scans s)\<rparr>
      in if length ?missing = 0 then (True, success MsgAllFieldsPresent s3)
         else (True, warning (MsgMissingFields ?missing) s3))"
    using assms
    by (cases s) (simp add: verifyData_def scan_call_def info_def success_def log_line_def emit_def Let_def)
  show ?thesis
    unfolding run empty by (simp add: step_defs requiredFields_def Let_def)
qed

text \<open>
  The theorem at work: the first record has an identifier and a name only. The step
  succeeds and warns about the three other fields.
\<close>

theorem verification_reports_missing_fields_witness:
  "dynamodb_scan partial_records (scans initial_state) 100 = Returns (Some (partial_item # [example_item]))
   \<and> verifyData partial_records initial_state =
       (True,
        \<lparr>trace = [LogInfo MsgVerifying, Scan TABLE_NAME 100, LogSuccess (MsgTotalRecords 2),
                  LogInfo MsgExampleRecord, ConsoleLog (ItemJson partial_item),
                  LogWarning (MsgMissingFields [''timestamp'', ''preco'', ''source_file''])],
         scans = 1\<rparr>)"
proof -
  have h: "dynamodb_scan partial_records (scans initial_state) 100 = Returns (Some (partial_item # [example_item]))"
    by (simp add: partial_records_def healthy_def)
  from verification_reports_missing_fields [OF h] h show ?thesis
    by (simp add: initial_state_def has_field_def partial_item_def)
qed

text \<open>
  Claim C5 as stated fails for the records after the first: the scan returns a complete
  record followed by one that lacks \<open>timestamp\<close>, \<open>preco\<close> and
  \<open>source_file\<close>, and the step reports that all expected fields are present; no
  absent field is reported.
\<close>

theorem later_record_unchecked_counterexample:
  "dynamodb_scan later_record_partial 0 100 = Returns (Some [example_item, partial_item])
   \<and> \<not> has_field ''timestamp'' partial_item
   \<and> \<not> has_field ''preco'' partial_item
   \<and> \<not> has_field ''source_file'' partial_item
   \<and> verifyData later_record_partial initial_state =
       (True,
        \<lparr>trace = [LogInfo MsgVerifying, Scan TABLE_NAME 100, LogSuccess (MsgTotalRecords 2),
                  LogInfo MsgExampleRecord, ConsoleLog (ItemJson example_item),
                  LogSuccess MsgAllFieldsPresent],
         scans = 1\<rparr>)"
  by (simp add: verifyData_def step_defs Let_def requiredFields_def has_field_def
        later_record_partial_def healthy_def initial_state_def example_item_def partial_item_def)

text \<open>
  Claim C6, as amended. \<open>testApi\<close> returns success if and only if the invocation
  returns a payload that \<open>JSON.parse\<close> turns into a response whose \<open>statusCode\<close>
  is the number 201 and whose \<open>body\<close> \<open>JSON.parse\<close> accepts in turn, giving a
  value that is neither \<open>null\<close> nor \<open>undefined\<close>, so that its property \<open>id\<close>
  can be read. The value reported is that property, which is \<open>undefined\<close> when the
  body has no identifier. A response with any other status code makes the step return
  failure after reporting the status.
\<close>

theorem api_test_outcome:
  assumes "testApi w s = (ok, s')"
  shows "(ok \<longleftrightarrow>
            (\<exists>payload response bodyText body ident.
               lambda_invoke w = Returns payload \<and> JSON_parse w payload = Returns response
             \<and> get_prop response ''statusCode'' = Returns (JNum 201)
             \<and> get_prop response ''body'' = Returns bodyText
             \<and> JSON_parse w bodyText = Returns body
             \<and> get_prop body ''id'' = Returns ident))
       \<and> (ok \<longrightarrow>
            (\<exists>payload response bodyText body ident.
               lambda_invoke w = Returns payload \<and> JSON_parse w payload = Returns response
             \<and> get_prop response ''body'' = Returns bodyText
             \<and> JSON_parse w bodyText = Returns body
             \<and> get_prop body ''id'' = Returns ident
             \<and> trace s' = trace s @ [LogInfo MsgTestingApi, Invoke ''CreateRecordFunction'',
                                      LogSuccess MsgApiWorking, LogInfo (MsgCreatedWithId ident)]))
       \<and> (\<forall>payload response status.
             lambda_invoke w = Returns payload \<and> JSON_parse w payload = Returns response
             \<and> get_prop response ''statusCode'' = Returns status \<and> status \<noteq> JNum 201
             \<longrightarrow> \<not> ok \<and> LogError (MsgApiStatus status) \<in> set (trace s'))"
  using assms
  by (auto simp: testApi_def api_catch_def step_defs Let_def split: reply.splits if_splits)

text \<open>
  The theorem at work: the healthy emulator answers with status 201 and a body that
  holds the identifier \<open>r-7\<close>, which is reported. For comparison, an answer with
  status 500 makes the step report the status, print the body and return failure.
\<close>

theorem api_test_outcome_witness:
  "testApi healthy initial_state =
     (True, \<lparr>trace = [LogInfo MsgTestingApi, Invoke ''CreateRecordFunction'',
                       LogSuccess MsgApiWorking, LogInfo (MsgCreatedWithId (JStr ''r-7''))],
             scans = 0\<rparr>)
   \<and> (\<exists>payload response bodyText body ident.
          lambda_invoke healthy = Returns payload \<and> JSON_parse healthy payload = Returns response
        \<and> get_prop response ''statusCode'' = Returns (JNum 201)
        \<and> get_prop response ''body'' = Returns bodyText
        \<and> JSON_parse healthy bodyText = Returns body
        \<and> get_prop body ''id'' = Returns ident)
   \<and> testApi request_failed initial_state =
       (False, \<lparr>trace = [LogInfo MsgTestingApi, Invoke ''CreateRecordFunction'',
                          LogError (MsgApiStatus (JNum 500)), ConsoleLog (Value (JStr ''boom''))],
                scans = 0\<rparr>)"
proof -
  have failed: "testApi request_failed initial_state =
       (False, \<lparr>trace = [LogInfo MsgTestingApi, Invoke ''CreateRecordFunction'',
                          LogError (MsgApiStatus (JNum 500)), ConsoleLog (Value (JStr ''boom''))],
                scans = 0\<rparr>)"
    by (simp add: testApi_def api_catch_def step_defs healthy_def initial_state_def request_failed_def
          example_parse_def created_payload_def created_body_def backslash_def)
  have run: "testApi healthy initial_state =
     (True, \<lparr>trace = [LogInfo MsgTestingApi, Invoke ''CreateRecordFunction'',
                       LogSuccess MsgApiWorking, LogInfo (MsgCreatedWithId (JStr ''r-7''))],
             scans = 0\<rparr>)"
    by (simp add: testApi_def api_catch_def step_defs healthy_def initial_state_def
          example_parse_def created_payload_def created_body_def backslash_def)
  from api_test_outcome [OF run] show ?thesis using run failed by blast
qed

text \<open>
  Claim C6 as stated fails in both directions of its promise about status 201. A
  response with status 201 and no body makes the step return failure: the success line
  is already printed when \<open>JSON.parse(undefined)\<close> throws. A response with status 201
  whose body is the empty object makes the step return success although the body holds
  no identifier; the value reported is \<open>undefined\<close>.
\<close>

theorem api_status_created_counterexample:
  \<open>JSON_parse created_without_body (JStr ''{"statusCode":201}'') = Returns (JObj [(''statusCode'', JNum 201)])
   \<and> testApi created_without_body initial_state =
       (False, \<lparr>trace = [LogInfo MsgTestingApi, Invoke ''CreateRecordFunction'',
                          LogSuccess MsgApiWorking, LogError (MsgApiError ''SyntaxError'')],
                scans = 0\<rparr>)
   \<and> testApi created_without_id initial_state =
       (True, \<lparr>trace = [LogInfo MsgTestingApi, Invoke ''CreateRecordFunction'',
                         LogSuccess MsgApiWorking, LogInfo (MsgCreatedWithId JUndefined)],
               scans = 0\<rparr>)\<close>
  by (simp add: testApi_def api_catch_def step_defs healthy_def initial_state_def
        created_without_body_def created_without_id_def
        example_parse_def created_payload_def created_body_def backslash_def)

section \<open>Claims about the setup script\<close>

text \<open>
  Claim C7, as amended. The setup script ends with exit code 1 when the directory check,
  the dependency install, the container-runtime check, the start of the emulator, the
  wait command or the deployment fails, and with exit code 0 when all of them succeed.
  The basic test does not enter: its result is not looked at, and the script ends with
  exit code 0 whether the test fails, passes or is skipped because the test script is
  not there.
\<close>

theorem setup_exit_code_by_step:
  "setup_exit_code (setup_script w) =
     (if existsSync w ''package.json''
         \<and> returned (snd (execSync w ''npm install''))
         \<and> returned (snd (execSync w ''docker ps''))
         \<and> returned (snd (execSync w ''docker-compose up -d''))
         \<and> returned (snd (execSync w ''sleep 30''))
         \<and> returned (snd (execSync w ''serverless deploy --stage local --verbose''))
      then 0 else 1)"
  unfolding setup_script_def
  by (simp add: setup_with_exit_code [where c = "returned (snd (execSync w ''sleep 30''))
         \<and> returned (snd (execSync w ''serverless deploy --stage local --verbose''))"]
        wait_step_exit_code)

text \<open>
  The theorem at work: a failed deployment ends the script with exit code 1; a missing
  test script leaves the exit code at 0.
\<close>

theorem setup_exit_code_by_step_witness:
  "\<not> returned (snd (execSync deploy_fails ''serverless deploy --stage local --verbose''))
   \<and> setup_exit_code (setup_script deploy_fails) = 1
   \<and> \<not> existsSync test_absent ''scripts/test-pipeline.js''
   \<and> setup_exit_code (setup_script test_absent) = 0"
  using setup_exit_code_by_step [of deploy_fails] setup_exit_code_by_step [of test_absent]
  by (simp add: returned_def deploy_fails_def test_absent_def setup_ready_def)

text \<open>
  Claim C7 as stated fails for the basic test: every earlier step succeeds, the test
  script is there and is run, the test command fails, and the script still prints its
  closing messages and ends with exit code 0.
\<close>

theorem failed_basic_test_counterexample:
  "existsSync test_fails ''scripts/test-pipeline.js''
   \<and> snd (execSync test_fails ''node scripts/test-pipeline.js'') = Throws ''Command failed''
   \<and> setup_script test_fails =
       \<lparr>setup_events =
          [Out SetupTitle, Out SetupRule, CheckedFile ''package.json'',
           Out Step1Installing, Out (Executing ''npm install''), Ran ''npm install'' inherit,
           Out CommandSucceeded,
           Out Step2Docker, Out (Executing ''docker ps''), Ran ''docker ps'' pipe,
           Out CommandSucceeded,
           Out Step3LocalStack, Out (Executing ''docker-compose up -d''),
           Ran ''docker-compose up -d'' inherit, Out CommandSucceeded,
           Out WaitingForLocalStack, Ran ''sleep 30'' inherit,
           Out Step4Deploy, Out (Executing ''serverless deploy --stage local --verbose''),
           Ran ''serverless deploy --stage local --verbose'' inherit, Out CommandSucceeded,
           Out Step5Test, CheckedFile ''scripts/test-pipeline.js'',
           Out (Executing ''node scripts/test-pipeline.js''),
           Ran ''node scripts/test-pipeline.js'' inherit, Err (CommandError ''Command failed''),
           Out SetupRule, Out SetupDone, Out SetupRule, Out NextStepsHeader,
           Out (NextStep 1), Out (NextStep 2), Out (NextStep 3), Out (NextStep 4)],
        setup_exit_code = 0,
        setup_exit_time = 47200\<rparr>"
  by (simp add: setup_script_def setup_with_def wait_step_def deploy_and_test_def execute_def
        run_child_def checkFile_def console_log_def console_error_def setTimeout_noop_def
        setup_finish_def setup_exit_def setup_start_def test_fails_def setup_ready_def Let_def)

text \<open>
  Claim C8. Removing the timer with the empty callback changes nothing that can be
  observed. The events and the exit code of the script and of the variant with the
  single blocking wait are the same in every world. The moment at which the process
  ends is the same as well, provided the wait command is the blocking 30-second sleep
  the claim speaks of, that is, provided \<open>sleep 30\<close> takes at least 30000 milliseconds
  whenever it returns: then the timer has expired before the script reaches its end,
  and it never keeps the process alive.
\<close>

theorem noop_timer_is_dead_code:
  "setup_events (setup_script w) = setup_events (setup_single_wait w)
   \<and> setup_exit_code (setup_script w) = setup_exit_code (setup_single_wait w)
   \<and> ((returned (snd (execSync w ''sleep 30'')) \<longrightarrow> 30000 \<le> fst (execSync w ''sleep 30''))
        \<longrightarrow> setup_script w = setup_single_wait w)"
proof (intro conjI impI)
  show "setup_events (setup_script w) = setup_events (setup_single_wait w)"
    unfolding setup_script_def setup_single_wait_def
    by (rule setup_with_cong) (rule wait_step_events)
  show "setup_exit_code (setup_script w) = setup_exit_code (setup_single_wait w)"
    unfolding setup_script_def setup_single_wait_def
    by (rule setup_with_cong) (rule wait_step_code)
next
  assume long: "returned (snd (execSync w ''sleep 30'')) \<longrightarrow> 30000 \<le> fst (execSync w ''sleep 30'')"
  have "(\<lambda>x. x) (setup_with wait_step w) = (\<lambda>x. x) (setup_with wait_step_single w)"
    by (rule setup_with_cong) (simp add: wait_step_same long)
  then show "setup_script w = setup_single_wait w"
    by (simp add: setup_script_def setup_single_wait_def)
qed

text \<open>
  The theorem at work: every command succeeds and \<open>sleep 30\<close> takes its 30 seconds.
  Both variants end with exit code 0 at the same moment, 48 seconds after the start.
\<close>

theorem noop_timer_is_dead_code_witness:
  "returned (snd (execSync setup_ready ''sleep 30'')) \<and> 30000 \<le> fst (execSync setup_ready ''sleep 30'')
   \<and> setup_script setup_ready = setup_single_wait setup_ready
   \<and> setup_exit_code (setup_single_wait setup_ready) = 0
   \<and> setup_exit_time (setup_single_wait setup_ready) = 48000"
proof -
  have h: "returned (snd (execSync setup_ready ''sleep 30'')) \<and> 30000 \<le> fst (execSync setup_ready ''sleep 30'')"
    by (simp add: returned_def setup_ready_def)
  have t: "setup_exit_code (setup_single_wait setup_ready) = 0
         \<and> setup_exit_time (setup_single_wait setup_ready) = 48000"
    by (simp add: setup_single_wait_def setup_with_def wait_step_single_def deploy_and_test_def
          execute_def run_child_def checkFile_def console_log_def console_error_def
          setup_finish_def setup_exit_def setup_start_def setup_ready_def Let_def)
  from noop_timer_is_dead_code [of setup_ready] h t show ?thesis by simp
qed

text \<open>
  The provision on the wait command is needed for the moment of exit only: were
  \<open>sleep 30\<close> to return after 10 milliseconds, the script would be through after 18
  seconds, and the pending timer would keep the process alive until 45 seconds after
  the start (the timer is set after the first three commands, which take 15 seconds).
\<close>

lemma timer_outlives_short_sleep:
  "setup_exit_time (setup_script sleep_cut_short) = 45000
   \<and> setup_exit_time (setup_single_wait sleep_cut_short) = 18010"
  by (simp add: setup_script_def setup_single_wait_def setup_with_def wait_step_def
        wait_step_single_def deploy_and_test_def execute_def run_child_def checkFile_def
        console_log_def console_error_def setTimeout_noop_def setup_finish_def setup_exit_def
        setup_start_def sleep_cut_short_def setup_ready_def Let_def)

end
